theory Spec2Isabelle
  imports Complex_Main
begin

section \<open>Python values and exceptions\<close>

text \<open>
  The energy-hub model builder is Python code on top of the Pyomo modelling library.
  Exceptions are values of type \<open>error\<close>; a computation that may raise returns
  \<open>error + 'a\<close> with \<open>Inl\<close> for the exception. Numbers are modelled as reals
  (Python ints and finite floats; NaN is outside the model). The units the builder uses
  (\<^verbatim>\<open>u.dimensionless\<close>, \<^verbatim>\<open>u.MW\<close>, \<^verbatim>\<open>u.MWh\<close>, \<^verbatim>\<open>u.EUR\<close> and their quotients) come
  first, as Pyomo's \<^verbatim>\<open>InconsistentUnitsError\<close> names the two units it cannot convert.
\<close>

datatype unit_expr = dimensionless | MW | MWh | EUR | Per unit_expr unit_expr

datatype error =
    KeyError string
  | ValueError string
  | NameError string
  | IndexError string
  | InconsistentUnitsError unit_expr unit_expr
  | LibraryError string

text \<open>
  A size bound of the technology data is a single number or a collection of numbers:
  the builder tests \<^verbatim>\<open>isinstance(x, numbers.Number)\<close>.
\<close>

datatype size_spec = Number real | Collection "real list"

text \<open>
  Python's built-in \<^verbatim>\<open>min\<close> and \<^verbatim>\<open>max\<close> over an iterable: the first element
  is the candidate, a later element replaces it when strictly smaller (larger); an empty
  iterable raises ValueError.
\<close>

fun py_min :: "real list \<Rightarrow> error + real" where
  "py_min [] = Inl (ValueError ''min() arg is an empty sequence'')"
| "py_min (x # xs) = Inr (foldl (\<lambda>m y. if y < m then y else m) x xs)"

fun py_max :: "real list \<Rightarrow> error + real" where
  "py_max [] = Inl (ValueError ''max() arg is an empty sequence'')"
| "py_max (x # xs) = Inr (foldl (\<lambda>m y. if y > m then y else m) x xs)"

section \<open>Input data\<close>

text \<open>
  The technology data bundle \<^verbatim>\<open>data.technology_data[nodename][tec]\<close> is a nested
  dictionary with the sections \<^verbatim>\<open>TechnologyPerf\<close> and \<^verbatim>\<open>Economics\<close>. The keys the
  builder reads are the fields of the records below (a bundle lacking one of them is
  excluded by the type).
\<close>

record technology_perf =
  tec_type :: string
  size_is_int :: bool
  size_min :: size_spec
  size_max :: size_spec
  input_carrier :: "string list"
  output_carrier :: "string list"

record economics =
  CAPEX_model :: int
  unit_CAPEX_annual :: real
  OPEX_variable :: real
  OPEX_fixed :: real

record tec_data =
  TechnologyPerf :: technology_perf
  Economics :: economics

text \<open>
  \<^verbatim>\<open>data.topology\<close> with its keys, \<^verbatim>\<open>data.node_data\<close> reduced to the column names of
  each node's climate data frame, and \<^verbatim>\<open>data.technology_data\<close>. Dictionaries indexed
  by node or technology names are maps: a missing key raises KeyError.
\<close>

record topology =
  nodes :: "string list"
  carriers :: "string list"
  timesteps :: "string list"
  technologies :: "string \<rightharpoonup> string list"

record data_handle =
  topology :: topology
  node_data :: "string \<rightharpoonup> string list"
  technology_data :: "string \<rightharpoonup> (string \<rightharpoonup> tec_data)"

section \<open>Pyomo components\<close>

text \<open>
  A Pyomo \<^verbatim>\<open>Set\<close> initialised from a list keeps insertion order and skips an element
  that is already a member. \<^verbatim>\<open>RangeSet(1, n)\<close> is \<open>1, \<dots>, n\<close>.
\<close>

fun Set_add :: "'a list \<Rightarrow> 'a \<Rightarrow> 'a list" where
  "Set_add s x = (if x \<in> set s then s else s @ [x])"

definition Set_initialize :: "'a list \<Rightarrow> 'a list" where
  "Set_initialize xs = foldl Set_add [] xs"

definition RangeSet :: "nat \<Rightarrow> nat \<Rightarrow> nat list" where
  "RangeSet a b = [a ..< Suc b]"

datatype domain = Reals | NonNegativeReals | NonNegativeIntegers

fun in_domain :: "domain \<Rightarrow> real \<Rightarrow> bool" where
  "in_domain Reals v = True"
| "in_domain NonNegativeReals v = (0 \<le> v)"
| "in_domain NonNegativeIntegers v = (0 \<le> v \<and> of_int (floor v) = v)"

text \<open>
  \<^verbatim>\<open>Param(domain=d, initialize=v, units=un)\<close>: constructing the parameter validates
  the value against the domain and raises ValueError when it lies outside.
\<close>

record param =
  p_domain :: domain
  p_value :: real
  p_units :: unit_expr

definition Param :: "domain \<Rightarrow> real \<Rightarrow> unit_expr \<Rightarrow> error + param" where
  "Param d v un =
     (if in_domain d v
      then Inr \<lparr>p_domain = d, p_value = v, p_units = un\<rparr>
      else Inl (ValueError ''Value not in parameter domain''))"

text \<open>
  \<^verbatim>\<open>Var(index sets, within=d, bounds=(lb, ub), units=un)\<close>: one variable per index;
  a scalar variable has the single index \<open>()\<close>. Omitted bounds are \<open>None\<close>, an omitted
  domain is \<open>Reals\<close>. A bound is a number or a parameter. When the variable is
  declared, Pyomo sets the bounds of the first index, the lower bound first: a bound that
  is a parameter is converted to the units of the variable, if the variable has units,
  and a parameter of another unit raises \<^verbatim>\<open>InconsistentUnitsError\<close>; a number is
  taken as it is. A variable over an empty index set has no data and converts nothing.
  Pyomo does not compare the two bounds with each other.
\<close>

datatype bound = NumB real | ParamB param

fun bound_value :: "bound \<Rightarrow> real" where
  "bound_value (NumB r) = r"
| "bound_value (ParamB p) = p_value p"

fun conversion_error :: "unit_expr option \<Rightarrow> bound option \<Rightarrow> error option" where
  "conversion_error (Some u) (Some (ParamB p)) =
     (if p_units p = u then None else Some (InconsistentUnitsError (p_units p) u))"
| "conversion_error un b = None"

record 'i var =
  v_index :: "'i list"
  v_within :: domain
  v_lb :: "real option"
  v_ub :: "real option"
  v_units :: "unit_expr option"

definition Var ::
  "'i list \<Rightarrow> domain \<Rightarrow> bound option \<times> bound option \<Rightarrow> unit_expr option \<Rightarrow> error + 'i var" where
  "Var idx d bounds un =
     (let v = \<lparr>v_index = idx, v_within = d, v_lb = map_option bound_value (fst bounds),
                v_ub = map_option bound_value (snd bounds), v_units = un\<rparr>
      in if idx = [] then Inr v
         else (case conversion_error un (fst bounds) of
                 Some e \<Rightarrow> Inl e
               | None \<Rightarrow>
                  (case conversion_error un (snd bounds) of
                     Some e \<Rightarrow> Inl e
                   | None \<Rightarrow> Inr v)))"

text \<open>The values a declared variable may take: its domain and both bounds.\<close>

definition admits :: "'i var \<Rightarrow> real \<Rightarrow> bool" where
  "admits v x =
     (in_domain (v_within v) x
      \<and> (case v_lb v of None \<Rightarrow> True | Some l \<Rightarrow> l \<le> x)
      \<and> (case v_ub v of None \<Rightarrow> True | Some u \<Rightarrow> x \<le> u))"

text \<open>
  References to the decision variables of one technology block, linear expressions over
  them, and the relation a \<^verbatim>\<open>Constraint\<close> holds. A (non-mutable) parameter enters an
  expression by its value; Python's \<^verbatim>\<open>sum\<close> adds the terms of the generator to 0.
\<close>

datatype var_ref =
    V_size
  | V_CAPEX
  | V_OPEX_fixed
  | V_OPEX_variable nat
  | V_input nat string
  | V_output nat string

datatype expr = VarE var_ref | ParamE real | SumE "expr list" | MulE expr expr

datatype relation = EqR expr expr

fun eval :: "(var_ref \<Rightarrow> real) \<Rightarrow> expr \<Rightarrow> real" where
  "eval \<sigma> (VarE v) = \<sigma> v"
| "eval \<sigma> (ParamE c) = c"
| "eval \<sigma> (SumE es) = sum_list (map (eval \<sigma>) es)"
| "eval \<sigma> (MulE a b) = eval \<sigma> a * eval \<sigma> b"

fun holds :: "(var_ref \<Rightarrow> real) \<Rightarrow> relation \<Rightarrow> bool" where
  "holds \<sigma> (EqR a b) = (eval \<sigma> a = eval \<sigma> b)"

text \<open>
  The component stored as \<^verbatim>\<open>const_CAPEX\<close>: a \<^verbatim>\<open>Constraint(expr=...)\<close> or a
  \<^verbatim>\<open>Piecewise(yvar, xvar, pw_pts=..., pw_constr_type=..., f_rule=..., pw_repn=...)\<close>.
  The checks Pyomo's \<^verbatim>\<open>Piecewise\<close> makes of the breakpoints against the bounds of the
  domain variable are not modelled.
\<close>

datatype component =
    Constraint relation
  | Piecewise var_ref var_ref "real list" string "real list" string

text \<open>
  The technology block \<^verbatim>\<open>b_tec\<close> with the attributes the builder assigns. An attribute
  that is assigned on some paths only is an option. \<open>archetype_part\<close> is what the
  archetype library adds to the block.
\<close>

record 'x tec_block =
  para_size_min :: param
  para_size_max :: param
  para_output_max :: param
  para_unit_CAPEX :: param
  para_OPEX_variable :: param
  para_OPEX_fixed :: param
  set_input_carriers :: "string list"
  set_output_carriers :: "string list"
  var_input :: "(nat \<times> string) var option"
  var_output :: "(nat \<times> string) var"
  var_size :: "unit var"
  var_CAPEX :: "unit var"
  var_OPEX_variable :: "nat var"
  var_OPEX_fixed :: "unit var"
  const_CAPEX :: "component option"
  const_OPEX_fixed :: component
  const_OPEX_variable :: "(nat \<times> relation) list"
  archetype_part :: "'x option"

text \<open>
  The Pyomo model with the global sets; \<^verbatim>\<open>set_technologies\<close> is indexed by the
  nodes and is empty until the constructor has initialised it.
\<close>

record model =
  set_nodes :: "string list"
  set_carriers :: "string list"
  set_t :: "nat list"
  set_climate_vars :: "string list"
  set_technologies :: "(string \<times> string list) list"

text \<open>
  The module \<^verbatim>\<open>generic_technology_constraints\<close> is not among the sources, so its
  functions \<^verbatim>\<open>constraints_tec_RES\<close>, ..., \<^verbatim>\<open>constraints_tec_STOR\<close> are parameters
  of the builder. Each takes the model, the technology block and the technology data
  and adds archetype-specific constraints to the block in place: it returns what it
  adds (of an arbitrary type \<open>'x\<close>) or the exception it raises.
\<close>

record 'x archetype_library =
  constraints_tec_RES :: "model \<Rightarrow> 'x tec_block \<Rightarrow> tec_data \<Rightarrow> error + 'x"
  constraints_tec_CONV1 :: "model \<Rightarrow> 'x tec_block \<Rightarrow> tec_data \<Rightarrow> error + 'x"
  constraints_tec_CONV2 :: "model \<Rightarrow> 'x tec_block \<Rightarrow> tec_data \<Rightarrow> error + 'x"
  constraints_tec_CONV3 :: "model \<Rightarrow> 'x tec_block \<Rightarrow> tec_data \<Rightarrow> error + 'x"
  constraints_tec_STOR :: "model \<Rightarrow> 'x tec_block \<Rightarrow> tec_data \<Rightarrow> error + 'x"

text \<open>
  The names \<^verbatim>\<open>bp_x\<close> and \<^verbatim>\<open>bp_y\<close> are assigned nowhere in
  \<^verbatim>\<open>construct_technology.py\<close>; the only way they can be bound is the star import of
  the absent library module. \<open>None\<close> is an unbound name.
\<close>

record module_globals =
  bp_x :: "real list option"
  bp_y :: "real list option"

text \<open>The process-wide configuration \<^verbatim>\<open>m_config.presolve\<close>.\<close>

record presolve =
  big_m_transformation_required :: int

section \<open>The technology builder (construct\_technology.py)\<close>

text \<open>
  Lines 81--88 of \<^verbatim>\<open>init_technology_block\<close>: the local variables \<^verbatim>\<open>size_min\<close> and
  \<^verbatim>\<open>size_max\<close>. A number is taken as it is, a collection is reduced with
  \<^verbatim>\<open>min\<close> (\<^verbatim>\<open>max\<close>).
\<close>

definition size_min_local :: "technology_perf \<Rightarrow> error + real" where
  "size_min_local perf =
     (case size_min perf of Number v \<Rightarrow> Inr v | Collection xs \<Rightarrow> py_min xs)"

definition size_max_local :: "technology_perf \<Rightarrow> error + real" where
  "size_max_local perf =
     (case size_max perf of Number v \<Rightarrow> Inr v | Collection xs \<Rightarrow> py_max xs)"

text \<open>
  Lines 133--142, the CAPEX constraint. The linear model yields a constraint, the
  piecewise model first sets the process-wide flag and then reads \<^verbatim>\<open>bp_x\<close> and
  \<^verbatim>\<open>bp_y\<close> (in this order, as keyword arguments are evaluated left to right); any
  other value of \<^verbatim>\<open>capex_model\<close> falls through both branches and leaves
  \<^verbatim>\<open>const_CAPEX\<close> unassigned.
\<close>

definition capex_constraint ::
  "module_globals \<Rightarrow> int \<Rightarrow> param \<Rightarrow> presolve \<Rightarrow> (error + component option) \<times> presolve" where
  "capex_constraint g capex_model unit_CAPEX cfg =
     (if capex_model = 1 then
        (Inr (Some (Constraint
           (EqR (MulE (VarE V_size) (ParamE (p_value unit_CAPEX))) (VarE V_CAPEX)))), cfg)
      else if capex_model = 2 then
        (let cfg' = cfg\<lparr>big_m_transformation_required := 1\<rparr> in
         case bp_x g of
           None \<Rightarrow> (Inl (NameError ''bp_x''), cfg')
         | Some pts \<Rightarrow>
             (case bp_y g of
                None \<Rightarrow> (Inl (NameError ''bp_y''), cfg')
              | Some vals \<Rightarrow>
                  (Inr (Some (Piecewise V_CAPEX V_size pts ''EQ'' vals ''SOS2'')), cfg')))
      else (Inr None, cfg))"

text \<open>Lines 147--149, the rule of the variable-OPEX constraint at time step \<open>t\<close>.\<close>

definition init_OPEX_variable :: "string list \<Rightarrow> param \<Rightarrow> nat \<Rightarrow> relation" where
  "init_OPEX_variable out_carriers opex_var t =
     EqR (MulE (SumE (map (\<lambda>car. VarE (V_output t car)) out_carriers))
               (ParamE (p_value opex_var)))
         (VarE (V_OPEX_variable t))"

text \<open>
  Sequencing of steps that may raise: the first exception ends the computation.
\<close>

fun and_then :: "error + 'a \<Rightarrow> ('a \<Rightarrow> error + 'b) \<Rightarrow> error + 'b" where
  "and_then (Inl e) f = Inl e"
| "and_then (Inr x) f = f x"

text \<open>
  Lines 78--103, the region PARAMETERS: the two size bounds are resolved, then the six
  parameters are declared in the order of the source: \<^verbatim>\<open>para_size_min\<close>,
  \<^verbatim>\<open>para_size_max\<close>, \<^verbatim>\<open>para_output_max\<close>, \<^verbatim>\<open>para_unit_CAPEX\<close>,
  \<^verbatim>\<open>para_OPEX_variable\<close>, \<^verbatim>\<open>para_OPEX_fixed\<close>. Lines 90--93 choose the unit of
  the size.
\<close>

definition unit_size_of :: "tec_data \<Rightarrow> unit_expr" where
  "unit_size_of td = (if size_is_int (TechnologyPerf td) then dimensionless else MW)"

definition parameters ::
  "tec_data \<Rightarrow> error + (param \<times> param \<times> param \<times> param \<times> param \<times> param)" where
  "parameters td =
    (let perf = TechnologyPerf td;
         econ = Economics td;
         unit_size = unit_size_of td
     in
     and_then (size_min_local perf) (\<lambda>smin.
     and_then (size_max_local perf) (\<lambda>smax.
     and_then (Param NonNegativeReals smin unit_size) (\<lambda>p_min.
     and_then (Param NonNegativeReals smax unit_size) (\<lambda>p_max.
     and_then (Param NonNegativeReals smax MW) (\<lambda>p_out.
     and_then (Param Reals (unit_CAPEX_annual econ) (Per EUR unit_size)) (\<lambda>p_capex.
     and_then (Param Reals (OPEX_variable econ) (Per EUR MWh)) (\<lambda>p_opex_var.
     and_then (Param Reals (OPEX_fixed econ) (Per EUR EUR)) (\<lambda>p_opex_fix.
       Inr (p_min, p_max, p_out, p_capex, p_opex_var, p_opex_fix))))))))))"

text \<open>
  Lines 110--129, the region DECISION VARIABLES, in the order of the source: the input
  variable (not for archetype RES), the output variable, the size variable (integer or
  continuous) and the three cost variables. The bounds of input and size are the two
  size parameters themselves, so that the input variable, which is in MW, converts
  them to MW.
\<close>

definition decision_variables ::
  "model \<Rightarrow> tec_data \<Rightarrow> string list \<Rightarrow> string list \<Rightarrow> param \<Rightarrow> param \<Rightarrow> param
     \<Rightarrow> error + ((nat \<times> string) var option \<times> (nat \<times> string) var \<times> unit var \<times> unit var
                  \<times> nat var \<times> unit var)" where
  "decision_variables m td s_in s_out p_min p_max p_out =
     and_then
       (if tec_type (TechnologyPerf td) \<noteq> ''RES''
        then and_then (Var (List.product (set_t m) s_in) NonNegativeReals
                         (Some (ParamB p_min), Some (ParamB p_max)) (Some MW))
               (\<lambda>v. Inr (Some v))
        else Inr None) (\<lambda>v_in.
     and_then (Var (List.product (set_t m) s_out) NonNegativeReals
                 (Some (NumB 0), Some (ParamB p_out)) (Some MW)) (\<lambda>v_out.
     and_then
       (if size_is_int (TechnologyPerf td)
        then Var [()] NonNegativeIntegers (Some (ParamB p_min), Some (ParamB p_max)) None
        else Var [()] NonNegativeReals (Some (ParamB p_min), Some (ParamB p_max))
               (Some MW)) (\<lambda>v_size.
     and_then (Var [()] Reals (None, None) (Some EUR)) (\<lambda>v_capex.
     and_then (Var (set_t m) Reals (None, None) (Some EUR)) (\<lambda>v_opex_var.
     and_then (Var [()] Reals (None, None) (Some EUR)) (\<lambda>v_opex_fix.
       Inr (v_in, v_out, v_size, v_capex, v_opex_var, v_opex_fix)))))))"

text \<open>
  Lines 73--163: options, parameters, sets, decision variables and the general
  constraints, in the order of the source. The result is the block as it stands before
  the archetype dispatch, or the first exception, together with the configuration.
\<close>

definition general_part ::
  "module_globals \<Rightarrow> model \<Rightarrow> tec_data \<Rightarrow> presolve \<Rightarrow> (error + 'x tec_block) \<times> presolve" where
  "general_part g m td cfg =
    (let perf = TechnologyPerf td;
         econ = Economics td;
         capex_model = CAPEX_model econ
     in
     case parameters td of
       Inl e \<Rightarrow> (Inl e, cfg)
     | Inr (p_min, p_max, p_out, p_capex, p_opex_var, p_opex_fix) \<Rightarrow>
        (let s_in = Set_initialize (input_carrier perf);
             s_out = Set_initialize (output_carrier perf)
         in
         (case decision_variables m td s_in s_out p_min p_max p_out of
            Inl e \<Rightarrow> (Inl e, cfg)
          | Inr (v_in, v_out, v_size, v_capex, v_opex_var, v_opex_fix) \<Rightarrow>
             (case capex_constraint g capex_model p_capex cfg of
                (Inl e, cfg') \<Rightarrow> (Inl e, cfg')
              | (Inr c_capex, cfg') \<Rightarrow>
                 (Inr \<lparr>para_size_min = p_min, para_size_max = p_max,
                       para_output_max = p_out,
                       para_unit_CAPEX = p_capex, para_OPEX_variable = p_opex_var,
                       para_OPEX_fixed = p_opex_fix,
                       set_input_carriers = s_in, set_output_carriers = s_out,
                       var_input = v_in, var_output = v_out, var_size = v_size,
                       var_CAPEX = v_capex, var_OPEX_variable = v_opex_var,
                       var_OPEX_fixed = v_opex_fix,
                       const_CAPEX = c_capex,
                       const_OPEX_fixed = Constraint
                         (EqR (MulE (VarE V_CAPEX) (ParamE (p_value p_opex_fix)))
                              (VarE V_OPEX_fixed)),
                       const_OPEX_variable =
                         map (\<lambda>t. (t, init_OPEX_variable s_out p_opex_var t)) (set_t m),
                       archetype_part = None\<rparr>, cfg')))))"

text \<open>
  Lines 78--129 raise nothing for this technology: its parameters and decision variables
  are declared, so that the builder arrives at the cost model in line 133.
\<close>

definition reaches_cost_model :: "model \<Rightarrow> tec_data \<Rightarrow> bool" where
  "reaches_cost_model m td =
     (case parameters td of
        Inl e \<Rightarrow> False
      | Inr (p_min, p_max, p_out, p_capex, p_opex_var, p_opex_fix) \<Rightarrow>
         (case decision_variables m td (Set_initialize (input_carrier (TechnologyPerf td)))
                 (Set_initialize (output_carrier (TechnologyPerf td))) p_min p_max p_out of
            Inl e \<Rightarrow> False
          | Inr vs \<Rightarrow> True))"

text \<open>
  Lines 165--179, the region TECHNOLOGY TYPES: a chain of string comparisons without a
  final \<^verbatim>\<open>else\<close>. The matching library function works on the block; a tag that
  matches none of the five leaves the block as it is.
\<close>

definition technology_types ::
  "'x archetype_library \<Rightarrow> model \<Rightarrow> tec_data \<Rightarrow> 'x tec_block \<Rightarrow> error + 'x tec_block" where
  "technology_types lib m td b =
    (let tt = tec_type (TechnologyPerf td) in
     if tt = ''RES'' then
       and_then (constraints_tec_RES lib m b td) (\<lambda>x. Inr (b\<lparr>archetype_part := Some x\<rparr>))
     else if tt = ''CONV1'' then
       and_then (constraints_tec_CONV1 lib m b td) (\<lambda>x. Inr (b\<lparr>archetype_part := Some x\<rparr>))
     else if tt = ''CONV2'' then
       and_then (constraints_tec_CONV2 lib m b td) (\<lambda>x. Inr (b\<lparr>archetype_part := Some x\<rparr>))
     else if tt = ''CONV3'' then
       and_then (constraints_tec_CONV3 lib m b td) (\<lambda>x. Inr (b\<lparr>archetype_part := Some x\<rparr>))
     else if tt = ''STOR'' then
       and_then (constraints_tec_STOR lib m b td) (\<lambda>x. Inr (b\<lparr>archetype_part := Some x\<rparr>))
     else Inr b)"

text \<open>
  \<^verbatim>\<open>init_technology_block(b_tec, tec)\<close>, the rule of the block of technology \<open>tec\<close>
  at node \<open>nodename\<close>: line 72 looks the technology data up (KeyError for an unknown
  node or technology), then the general part and the archetype dispatch follow.
\<close>

definition init_technology_block ::
  "'x archetype_library \<Rightarrow> module_globals \<Rightarrow> model \<Rightarrow> data_handle \<Rightarrow> string \<Rightarrow> string
     \<Rightarrow> presolve \<Rightarrow> (error + 'x tec_block) \<times> presolve" where
  "init_technology_block lib g m data nodename tec cfg =
    (case technology_data data nodename of
       None \<Rightarrow> (Inl (KeyError nodename), cfg)
     | Some tecs \<Rightarrow>
        (case tecs tec of
           None \<Rightarrow> (Inl (KeyError tec), cfg)
         | Some td \<Rightarrow>
            (case general_part g m td cfg of
               (Inl e, cfg') \<Rightarrow> (Inl e, cfg')
             | (Inr b, cfg') \<Rightarrow> (technology_types lib m td b, cfg'))))"

text \<open>
  \<^verbatim>\<open>Block(index_set, rule=...)\<close> runs the rule for every index in the order of the
  set; an exception of the rule ends the construction.
\<close>

fun Block :: "('i \<Rightarrow> presolve \<Rightarrow> (error + 'b) \<times> presolve) \<Rightarrow> 'i list \<Rightarrow> presolve
    \<Rightarrow> (error + ('i \<times> 'b) list) \<times> presolve" where
  "Block rule [] cfg = (Inr [], cfg)"
| "Block rule (i # idx) cfg =
     (case rule i cfg of
        (Inl e, cfg') \<Rightarrow> (Inl e, cfg')
      | (Inr b, cfg') \<Rightarrow>
         (case Block rule idx cfg' of
            (Inl e, cfg'') \<Rightarrow> (Inl e, cfg'')
          | (Inr bs, cfg'') \<Rightarrow> (Inr ((i, b) # bs), cfg'')))"

text \<open>
  The node block \<^verbatim>\<open>b_node\<close> as far as \<^verbatim>\<open>add_technologies\<close> uses it: the set of
  technologies at the node, which the node assembler has declared, and the technology
  blocks, which \<^verbatim>\<open>add_technologies\<close> assigns.
\<close>

record 'x node_block =
  set_tecsAtNode :: "string list"
  tech_blocks :: "(string \<times> 'x tec_block) list"

definition add_technologies ::
  "'x archetype_library \<Rightarrow> module_globals \<Rightarrow> string \<Rightarrow> 'x node_block \<Rightarrow> model \<Rightarrow> data_handle
     \<Rightarrow> presolve \<Rightarrow> (error + 'x node_block) \<times> presolve" where
  "add_technologies lib g nodename b_node m data cfg =
    (case Block (init_technology_block lib g m data nodename) (set_tecsAtNode b_node) cfg of
       (Inl e, cfg') \<Rightarrow> (Inl e, cfg')
     | (Inr bs, cfg') \<Rightarrow> (Inr (b_node\<lparr>tech_blocks := bs\<rparr>), cfg'))"

section \<open>The orchestrator (energyhub.py)\<close>

text \<open>
  Line 45: \<^verbatim>\<open>print\<close> writes its three arguments separated by blanks. The constructor
  is modelled with the list of the texts that the \<^verbatim>\<open>print\<close> calls of the source have
  written, in their order; what Pyomo's own logger writes (warnings, error records) is
  not part of this list.
\<close>

definition tec_node_message :: "string \<Rightarrow> string" where
  "tec_node_message node =
     ''The nodes in the technology sets do not match the node names. The node '' @ [CHR 0x27]
       @ '' '' @ node @ '' '' @ [CHR 0x27] @ '' does not exist.''"

text \<open>
  Lines 40--47, \<^verbatim>\<open>tec_node(model, node)\<close> with \<open>techs\<close> for
  \<^verbatim>\<open>sets['technologies']\<close>: a node of \<^verbatim>\<open>model.set_nodes\<close> is looked up in the
  mapping; the KeyError of a missing key is reported by \<^verbatim>\<open>print\<close> and raised
  again. For a node outside \<^verbatim>\<open>model.set_nodes\<close> the function ends without a
  \<^verbatim>\<open>return\<close>, that is, it returns \<^verbatim>\<open>None\<close>.
\<close>

definition tec_node ::
  "(string \<rightharpoonup> string list) \<Rightarrow> model \<Rightarrow> string \<Rightarrow> string list
     \<Rightarrow> (error + string list option) \<times> string list" where
  "tec_node techs m node printed =
     (if node \<in> set (set_nodes m) then
        (case techs node of
           Some ts \<Rightarrow> (Inr (Some ts), printed)
         | None \<Rightarrow> (Inl (KeyError node), printed @ [tec_node_message node]))
      else (Inr None, printed))"

text \<open>
  \<^verbatim>\<open>Set(index_set, initialize=f)\<close>: the initialiser is called for every index in the
  order of the index set, and its list initialises the member set at that index. Pyomo
  rejects an initialiser that returns \<^verbatim>\<open>None\<close>.
\<close>

fun Set_indexed ::
  "('i \<Rightarrow> string list \<Rightarrow> (error + 'a list option) \<times> string list) \<Rightarrow> 'i list \<Rightarrow> string list
     \<Rightarrow> (error + ('i \<times> 'a list) list) \<times> string list" where
  "Set_indexed init [] printed = (Inr [], printed)"
| "Set_indexed init (i # idx) printed =
     (case init i printed of
        (Inl e, printed') \<Rightarrow> (Inl e, printed')
      | (Inr None, printed') \<Rightarrow>
          (Inl (ValueError ''Set rule or initializer returned None instead of Set.Skip''),
           printed')
      | (Inr (Some xs), printed') \<Rightarrow>
          (case Set_indexed init idx printed' of
             (Inl e, printed'') \<Rightarrow> (Inl e, printed'')
           | (Inr rest, printed'') \<Rightarrow> (Inr ((i, Set_initialize xs) # rest), printed'')))"

text \<open>
  \<^verbatim>\<open>energyhub.__init__(self, data)\<close>, lines 26--54: the global sets are declared in
  the order of the source. \<^verbatim>\<open>set_nodes[1]\<close> is the first node (IndexError for an
  empty set); its climate data gives the climate variables. An exception leaves the
  constructor, so that no instance exists.
\<close>

record energyhub =
  hub_model :: model
  hub_data :: data_handle

definition energyhub_init ::
  "data_handle \<Rightarrow> string list \<Rightarrow> (error + energyhub) \<times> string list" where
  "energyhub_init data printed =
    (let sets = topology data;
         s_nodes = Set_initialize (nodes sets);
         s_carriers = Set_initialize (carriers sets);
         s_t = RangeSet 1 (length (timesteps sets))
     in
     case s_nodes of
       [] \<Rightarrow> (Inl (IndexError ''set_nodes''), printed)
     | n1 # _ \<Rightarrow>
        (case node_data data n1 of
           None \<Rightarrow> (Inl (KeyError n1), printed)
         | Some climate_vars \<Rightarrow>
            (let m = \<lparr>set_nodes = s_nodes, set_carriers = s_carriers, set_t = s_t,
                      set_climate_vars = Set_initialize climate_vars,
                      set_technologies = []\<rparr>
             in
             (case Set_indexed (tec_node (technologies sets) m) (set_nodes m) printed of
                (Inl e, printed') \<Rightarrow> (Inl e, printed')
              | (Inr s_tec, printed') \<Rightarrow>
                 (Inr \<lparr>hub_model = m\<lparr>set_technologies := s_tec\<rparr>, hub_data = data\<rparr>,
                  printed')))))"

section \<open>A small hub for concrete evaluation\<close>

text \<open>
  One node with two time steps and three carriers. The library functions of this hub
  add nothing and raise nothing; the module binds neither \<^verbatim>\<open>bp_x\<close> nor \<^verbatim>\<open>bp_y\<close>
  (\<open>ex_globals\<close>), or both (\<open>ex_globals_bp\<close>).
\<close>

definition ex_lib :: "unit archetype_library" where
  "ex_lib = \<lparr>constraints_tec_RES = (\<lambda>m b td. Inr ()),
             constraints_tec_CONV1 = (\<lambda>m b td. Inr ()),
             constraints_tec_CONV2 = (\<lambda>m b td. Inr ()),
             constraints_tec_CONV3 = (\<lambda>m b td. Inr ()),
             constraints_tec_STOR = (\<lambda>m b td. Inr ())\<rparr>"

definition ex_globals :: module_globals where
  "ex_globals = \<lparr>bp_x = None, bp_y = None\<rparr>"

definition ex_globals_bp :: module_globals where
  "ex_globals_bp = \<lparr>bp_x = Some [0, 6], bp_y = Some [0, 500]\<rparr>"

definition ex_cfg :: presolve where
  "ex_cfg = \<lparr>big_m_transformation_required = 0\<rparr>"

definition ex_model :: model where
  "ex_model = \<lparr>set_nodes = [''onshore''],
               set_carriers = [''electricity'', ''heat'', ''gas''],
               set_t = [1, 2],
               set_climate_vars = [''temp_air''],
               set_technologies = [(''onshore'', [''boiler'', ''pv''])]\<rparr>"

definition ex_economics :: "int \<Rightarrow> economics" where
  "ex_economics cm = \<lparr>CAPEX_model = cm, unit_CAPEX_annual = 100, OPEX_variable = 3,
                       OPEX_fixed = 1 / 20\<rparr>"

definition td_boiler :: tec_data where
  "td_boiler = \<lparr>TechnologyPerf = \<lparr>tec_type = ''CONV1'', size_is_int = False,
                  size_min = Number 2, size_max = Number 10,
                  input_carrier = [''gas''], output_carrier = [''heat'']\<rparr>,
                Economics = ex_economics 1\<rparr>"

definition td_pv :: tec_data where
  "td_pv = \<lparr>TechnologyPerf = \<lparr>tec_type = ''RES'', size_is_int = True,
              size_min = Collection [1, 0], size_max = Collection [5, 8],
              input_carrier = [], output_carrier = [''electricity'']\<rparr>,
            Economics = ex_economics 1\<rparr>"

definition td_crossed :: tec_data where
  "td_crossed = \<lparr>TechnologyPerf = \<lparr>tec_type = ''CONV2'', size_is_int = False,
                   size_min = Collection [5, 6], size_max = Collection [1, 2],
                   input_carrier = [''hydrogen''], output_carrier = [''heat'']\<rparr>,
                 Economics = ex_economics 1\<rparr>"

definition td_kiln :: tec_data where
  "td_kiln = \<lparr>TechnologyPerf = \<lparr>tec_type = ''CONV3'', size_is_int = False,
                size_min = Number 0, size_max = Number 4,
                input_carrier = [''gas''], output_carrier = [''heat'']\<rparr>,
              Economics = ex_economics 3\<rparr>"

definition td_electrolyser :: tec_data where
  "td_electrolyser = \<lparr>TechnologyPerf = \<lparr>tec_type = ''CONV1'', size_is_int = False,
                        size_min = Number 0, size_max = Number 6,
                        input_carrier = [''electricity''], output_carrier = [''gas'']\<rparr>,
                      Economics = ex_economics 2\<rparr>"

definition td_chp :: tec_data where
  "td_chp = \<lparr>TechnologyPerf = \<lparr>tec_type = ''CHP'', size_is_int = False,
               size_min = Number 0, size_max = Number 7,
               input_carrier = [''gas''], output_carrier = [''electricity'', ''heat'']\<rparr>,
             Economics = ex_economics 1\<rparr>"

definition td_reformer :: tec_data where
  "td_reformer = \<lparr>TechnologyPerf = \<lparr>tec_type = ''CONV1'', size_is_int = False,
                    size_min = Number (- 1), size_max = Number 6,
                    input_carrier = [''gas''], output_carrier = [''heat'']\<rparr>,
                  Economics = ex_economics 2\<rparr>"

definition td_stack :: tec_data where
  "td_stack = \<lparr>TechnologyPerf = \<lparr>tec_type = ''CONV1'', size_is_int = True,
                 size_min = Number 0, size_max = Number 6,
                 input_carrier = [''electricity''], output_carrier = [''gas'']\<rparr>,
               Economics = ex_economics 2\<rparr>"

definition ex_tecs :: "string \<rightharpoonup> tec_data" where
  "ex_tecs = map_of [(''boiler'', td_boiler), (''pv'', td_pv), (''crossed'', td_crossed),
                     (''kiln'', td_kiln), (''electrolyser'', td_electrolyser),
                     (''chp'', td_chp), (''reformer'', td_reformer), (''stack'', td_stack)]"

definition ex_topology :: "(string \<times> string list) list \<Rightarrow> topology" where
  "ex_topology techs = \<lparr>nodes = [''onshore''],
                        carriers = [''electricity'', ''heat'', ''gas''],
                        timesteps = [''01:00'', ''02:00''],
                        technologies = map_of techs\<rparr>"

definition ex_data :: "(string \<times> string list) list \<Rightarrow> data_handle" where
  "ex_data techs = \<lparr>topology = ex_topology techs,
                    node_data = map_of [(''onshore'', [''temp_air''])],
                    technology_data = map_of [(''onshore'', ex_tecs)]\<rparr>"

definition ex_node :: "string list \<Rightarrow> unit node_block" where
  "ex_node tecs = \<lparr>set_tecsAtNode = tecs, tech_blocks = []\<rparr>"

section \<open>Auxiliary facts\<close>

lemma foldl_min_conv:
  "foldl (\<lambda>m y. if y < m then y else m) (x::real) xs = Min (insert x (set xs))"
proof (induction xs arbitrary: x)
  case Nil
  then show ?case by simp
next
  case (Cons a xs)
  have "Min (insert (if a < x then a else x) (set xs)) = Min (insert x (insert a (set xs)))"
    by (cases "set xs = {}") (auto simp: min_def insert_commute)
  with Cons show ?case by simp
qed

lemma foldl_max_conv:
  "foldl (\<lambda>m y. if y > m then y else m) (x::real) xs = Max (insert x (set xs))"
proof (induction xs arbitrary: x)
  case Nil
  then show ?case by simp
next
  case (Cons a xs)
  have "Max (insert (if a > x then a else x) (set xs)) = Max (insert x (insert a (set xs)))"
    by (cases "set xs = {}") (auto simp: max_def insert_commute)
  with Cons show ?case by simp
qed

lemma py_min_Min: "xs \<noteq> [] \<Longrightarrow> py_min xs = Inr (Min (set xs))"
  by (cases xs) (simp_all add: foldl_min_conv)

lemma py_max_Max: "xs \<noteq> [] \<Longrightarrow> py_max xs = Inr (Max (set xs))"
  by (cases xs) (simp_all add: foldl_max_conv)

lemma py_min_Inr: "py_min xs = Inr v \<longleftrightarrow> xs \<noteq> [] \<and> v = Min (set xs)"
  by (cases xs) (auto simp: foldl_min_conv)

lemma py_max_Inr: "py_max xs = Inr v \<longleftrightarrow> xs \<noteq> [] \<and> v = Max (set xs)"
  by (cases xs) (auto simp: foldl_max_conv)

lemma set_foldl_Set_add: "set (foldl Set_add acc xs) = set acc \<union> set xs"
  by (induction xs arbitrary: acc) auto

lemma distinct_foldl_Set_add: "distinct acc \<Longrightarrow> distinct (foldl Set_add acc xs)"
  by (induction xs arbitrary: acc) auto

lemma set_Set_initialize: "set (Set_initialize xs) = set xs"
  by (simp add: Set_initialize_def set_foldl_Set_add)

lemma distinct_Set_initialize: "distinct (Set_initialize xs)"
  by (simp add: Set_initialize_def distinct_foldl_Set_add)

lemma and_then_Inr: "and_then r f = Inr y \<longleftrightarrow> (\<exists>x. r = Inr x \<and> f x = Inr y)"
  by (cases r) auto

lemma Param_Inr:
  "Param d v un = Inr p \<longleftrightarrow> in_domain d v \<and> p = \<lparr>p_domain = d, p_value = v, p_units = un\<rparr>"
  by (auto simp: Param_def)

lemma parameters_Inr:
  "parameters td = Inr (p_min, p_max, p_out, p_capex, p_opex_var, p_opex_fix) \<longleftrightarrow>
     (\<exists>smin smax. size_min_local (TechnologyPerf td) = Inr smin
        \<and> size_max_local (TechnologyPerf td) = Inr smax
        \<and> 0 \<le> smin \<and> 0 \<le> smax
        \<and> p_min = \<lparr>p_domain = NonNegativeReals, p_value = smin, p_units = unit_size_of td\<rparr>
        \<and> p_max = \<lparr>p_domain = NonNegativeReals, p_value = smax, p_units = unit_size_of td\<rparr>
        \<and> p_out = \<lparr>p_domain = NonNegativeReals, p_value = smax, p_units = MW\<rparr>
        \<and> p_capex = \<lparr>p_domain = Reals, p_value = unit_CAPEX_annual (Economics td),
                       p_units = Per EUR (unit_size_of td)\<rparr>
        \<and> p_opex_var = \<lparr>p_domain = Reals, p_value = OPEX_variable (Economics td),
                          p_units = Per EUR MWh\<rparr>
        \<and> p_opex_fix = \<lparr>p_domain = Reals, p_value = OPEX_fixed (Economics td),
                          p_units = Per EUR EUR\<rparr>)"
  unfolding parameters_def Let_def
  by (auto simp: and_then_Inr Param_Inr)

lemma product_eq_Nil: "List.product xs ys = [] \<longleftrightarrow> xs = [] \<or> ys = []"
  by (induction xs) auto

lemma Set_initialize_eq_Nil: "Set_initialize xs = [] \<longleftrightarrow> xs = []"
  using set_Set_initialize [of xs] by (metis set_empty)

lemma Var_Inr:
  "Var idx d bounds un = Inr v \<longleftrightarrow>
     (idx = [] \<or> conversion_error un (fst bounds) = None
                \<and> conversion_error un (snd bounds) = None)
     \<and> v = \<lparr>v_index = idx, v_within = d, v_lb = map_option bound_value (fst bounds),
            v_ub = map_option bound_value (snd bounds), v_units = un\<rparr>"
  by (auto simp: Var_def Let_def split: option.splits)

text \<open>
  The decision variables are declared unless the technology has an integer size, is not
  of archetype RES and has at least one pair of a time step and an input carrier: then
  the dimensionless size parameters cannot bound the input variable, which is in MW.
\<close>

lemma decision_variables_Inr:
  assumes "p_min = \<lparr>p_domain = NonNegativeReals, p_value = smin, p_units = unit_size_of td\<rparr>"
    and "p_max = \<lparr>p_domain = NonNegativeReals, p_value = smax, p_units = unit_size_of td\<rparr>"
    and "p_out = \<lparr>p_domain = NonNegativeReals, p_value = smax, p_units = MW\<rparr>"
  shows "decision_variables m td s_in s_out p_min p_max p_out
           = Inr (v_in, v_out, v_size, v_capex, v_opex_var, v_opex_fix) \<longleftrightarrow>
         (size_is_int (TechnologyPerf td) \<and> tec_type (TechnologyPerf td) \<noteq> ''RES''
            \<longrightarrow> set_t m = [] \<or> s_in = [])
       \<and> v_in = (if tec_type (TechnologyPerf td) \<noteq> ''RES''
                 then Some \<lparr>v_index = List.product (set_t m) s_in,
                            v_within = NonNegativeReals, v_lb = Some smin, v_ub = Some smax,
                            v_units = Some MW\<rparr>
                 else None)
       \<and> v_out = \<lparr>v_index = List.product (set_t m) s_out, v_within = NonNegativeReals,
                   v_lb = Some 0, v_ub = Some smax, v_units = Some MW\<rparr>
       \<and> v_size = (if size_is_int (TechnologyPerf td)
                   then \<lparr>v_index = [()], v_within = NonNegativeIntegers, v_lb = Some smin,
                         v_ub = Some smax, v_units = None\<rparr>
                   else \<lparr>v_index = [()], v_within = NonNegativeReals, v_lb = Some smin,
                         v_ub = Some smax, v_units = Some MW\<rparr>)
       \<and> v_capex = \<lparr>v_index = [()], v_within = Reals, v_lb = None, v_ub = None,
                     v_units = Some EUR\<rparr>
       \<and> v_opex_var = \<lparr>v_index = set_t m, v_within = Reals, v_lb = None, v_ub = None,
                        v_units = Some EUR\<rparr>
       \<and> v_opex_fix = \<lparr>v_index = [()], v_within = Reals, v_lb = None, v_ub = None,
                        v_units = Some EUR\<rparr>"
  unfolding decision_variables_def assms
  by (auto simp: and_then_Inr Var_Inr unit_size_of_def product_eq_Nil)

text \<open>
  What a completed general part has put on the block, field by field, in terms of the
  technology data.
\<close>

lemma general_part_Inr:
  assumes "general_part g m td cfg = (Inr b, cfg')"
  shows "\<exists>smin smax c. size_min_local (TechnologyPerf td) = Inr smin
        \<and> size_max_local (TechnologyPerf td) = Inr smax
        \<and> 0 \<le> smin \<and> 0 \<le> smax
        \<and> (size_is_int (TechnologyPerf td) \<and> tec_type (TechnologyPerf td) \<noteq> ''RES''
             \<longrightarrow> set_t m = [] \<or> input_carrier (TechnologyPerf td) = [])
        \<and> capex_constraint g (CAPEX_model (Economics td))
             \<lparr>p_domain = Reals, p_value = unit_CAPEX_annual (Economics td),
              p_units = Per EUR (unit_size_of td)\<rparr> cfg = (Inr c, cfg')
        \<and> (b :: 'x tec_block) =
           \<lparr>para_size_min =
              \<lparr>p_domain = NonNegativeReals, p_value = smin, p_units = unit_size_of td\<rparr>,
            para_size_max =
              \<lparr>p_domain = NonNegativeReals, p_value = smax, p_units = unit_size_of td\<rparr>,
            para_output_max = \<lparr>p_domain = NonNegativeReals, p_value = smax, p_units = MW\<rparr>,
            para_unit_CAPEX =
              \<lparr>p_domain = Reals, p_value = unit_CAPEX_annual (Economics td),
               p_units = Per EUR (unit_size_of td)\<rparr>,
            para_OPEX_variable =
              \<lparr>p_domain = Reals, p_value = OPEX_variable (Economics td),
               p_units = Per EUR MWh\<rparr>,
            para_OPEX_fixed =
              \<lparr>p_domain = Reals, p_value = OPEX_fixed (Economics td), p_units = Per EUR EUR\<rparr>,
            set_input_carriers = Set_initialize (input_carrier (TechnologyPerf td)),
            set_output_carriers = Set_initialize (output_carrier (TechnologyPerf td)),
            var_input =
              (if tec_type (TechnologyPerf td) \<noteq> ''RES''
               then Some \<lparr>v_index = List.product (set_t m)
                                 (Set_initialize (input_carrier (TechnologyPerf td))),
                          v_within = NonNegativeReals, v_lb = Some smin, v_ub = Some smax,
                          v_units = Some MW\<rparr>
               else None),
            var_output =
              \<lparr>v_index = List.product (set_t m)
                           (Set_initialize (output_carrier (TechnologyPerf td))),
               v_within = NonNegativeReals, v_lb = Some 0, v_ub = Some smax,
               v_units = Some MW\<rparr>,
            var_size =
              (if size_is_int (TechnologyPerf td)
               then \<lparr>v_index = [()], v_within = NonNegativeIntegers, v_lb = Some smin,
                     v_ub = Some smax, v_units = None\<rparr>
               else \<lparr>v_index = [()], v_within = NonNegativeReals, v_lb = Some smin,
                     v_ub = Some smax, v_units = Some MW\<rparr>),
            var_CAPEX = \<lparr>v_index = [()], v_within = Reals, v_lb = None, v_ub = None,
                         v_units = Some EUR\<rparr>,
            var_OPEX_variable = \<lparr>v_index = set_t m, v_within = Reals, v_lb = None,
                                 v_ub = None, v_units = Some EUR\<rparr>,
            var_OPEX_fixed = \<lparr>v_index = [()], v_within = Reals, v_lb = None, v_ub = None,
                              v_units = Some EUR\<rparr>,
            const_CAPEX = c,
            const_OPEX_fixed =
              Constraint (EqR (MulE (VarE V_CAPEX) (ParamE (OPEX_fixed (Economics td))))
                              (VarE V_OPEX_fixed)),
            const_OPEX_variable =
              map (\<lambda>t. (t, init_OPEX_variable
                             (Set_initialize (output_carrier (TechnologyPerf td)))
                             \<lparr>p_domain = Reals, p_value = OPEX_variable (Economics td),
                              p_units = Per EUR MWh\<rparr> t))
                  (set_t m),
            archetype_part = None\<rparr>"
proof -
  from assms obtain p_min p_max p_out p_capex p_opex_var p_opex_fix where
    ps: "parameters td = Inr (p_min, p_max, p_out, p_capex, p_opex_var, p_opex_fix)"
    unfolding general_part_def Let_def
    by (auto split: sum.splits prod.splits)
  from ps obtain smin smax where
    sz: "size_min_local (TechnologyPerf td) = Inr smin"
        "size_max_local (TechnologyPerf td) = Inr smax" "0 \<le> smin" "0 \<le> smax"
    and pv:
      "p_min = \<lparr>p_domain = NonNegativeReals, p_value = smin, p_units = unit_size_of td\<rparr>"
      "p_max = \<lparr>p_domain = NonNegativeReals, p_value = smax, p_units = unit_size_of td\<rparr>"
      "p_out = \<lparr>p_domain = NonNegativeReals, p_value = smax, p_units = MW\<rparr>"
      "p_capex = \<lparr>p_domain = Reals, p_value = unit_CAPEX_annual (Economics td),
                  p_units = Per EUR (unit_size_of td)\<rparr>"
      "p_opex_var = \<lparr>p_domain = Reals, p_value = OPEX_variable (Economics td),
                     p_units = Per EUR MWh\<rparr>"
      "p_opex_fix = \<lparr>p_domain = Reals, p_value = OPEX_fixed (Economics td),
                     p_units = Per EUR EUR\<rparr>"
    unfolding parameters_Inr by blast
  from assms ps obtain v_in v_out v_size v_capex v_opex_var v_opex_fix where
    dv: "decision_variables m td (Set_initialize (input_carrier (TechnologyPerf td)))
           (Set_initialize (output_carrier (TechnologyPerf td))) p_min p_max p_out
         = Inr (v_in, v_out, v_size, v_capex, v_opex_var, v_opex_fix)"
    unfolding general_part_def Let_def
    by (auto split: sum.splits prod.splits)
  note dvs = dv [unfolded decision_variables_Inr [OF pv(1) pv(2) pv(3)]]
  from assms ps dv obtain c where
    cc: "capex_constraint g (CAPEX_model (Economics td)) p_capex cfg = (Inr c, cfg')"
    unfolding general_part_def Let_def
    by (auto split: sum.splits prod.splits)
  from assms have "b =
      \<lparr>para_size_min = p_min, para_size_max = p_max, para_output_max = p_out,
       para_unit_CAPEX = p_capex, para_OPEX_variable = p_opex_var,
       para_OPEX_fixed = p_opex_fix,
       set_input_carriers = Set_initialize (input_carrier (TechnologyPerf td)),
       set_output_carriers = Set_initialize (output_carrier (TechnologyPerf td)),
       var_input = v_in, var_output = v_out, var_size = v_size,
       var_CAPEX = v_capex, var_OPEX_variable = v_opex_var, var_OPEX_fixed = v_opex_fix,
       const_CAPEX = c,
       const_OPEX_fixed = Constraint
         (EqR (MulE (VarE V_CAPEX) (ParamE (p_value p_opex_fix))) (VarE V_OPEX_fixed)),
       const_OPEX_variable =
         map (\<lambda>t. (t, init_OPEX_variable
                        (Set_initialize (output_carrier (TechnologyPerf td))) p_opex_var t))
             (set_t m),
       archetype_part = None\<rparr>"
    unfolding general_part_def Let_def ps by (simp add: dv cc)
  with dvs sz cc show ?thesis
    by (simp add: pv Set_initialize_eq_Nil)
qed

lemma technology_types_Inr:
  "technology_types lib m td b = Inr b' \<Longrightarrow> b' = b\<lparr>archetype_part := archetype_part b'\<rparr>"
  unfolding technology_types_def Let_def
  by (auto simp: and_then_Inr split: if_splits)

lemma init_technology_block_Inr:
  assumes "init_technology_block lib g m data nodename tec cfg = (Inr b', cfg')"
    and "technology_data data nodename = Some tecs" and "tecs tec = Some td"
  shows "\<exists>b. general_part g m td cfg = (Inr b, cfg')
           \<and> technology_types lib m td b = Inr b'
           \<and> b' = b\<lparr>archetype_part := archetype_part b'\<rparr>"
  using assms technology_types_Inr [of lib m td _ b']
  unfolding init_technology_block_def
  by (auto split: sum.splits prod.splits)

text \<open>
  The attributes of a block that \<^verbatim>\<open>init_technology_block\<close> has completed: the
  archetype library leaves the components of the general part in place.
\<close>

lemma built_block_fields:
  assumes build: "init_technology_block lib g m data nodename tec cfg = (Inr b, cfg')"
    and data: "technology_data data nodename = Some tecs" "tecs tec = Some td"
  shows "\<exists>smin smax. size_min_local (TechnologyPerf td) = Inr smin
        \<and> size_max_local (TechnologyPerf td) = Inr smax
        \<and> 0 \<le> smin \<and> 0 \<le> smax
        \<and> (size_is_int (TechnologyPerf td) \<and> tec_type (TechnologyPerf td) \<noteq> ''RES''
             \<longrightarrow> set_t m = [] \<or> input_carrier (TechnologyPerf td) = [])
        \<and> p_value (para_size_min b) = smin
        \<and> p_value (para_size_max b) = smax
        \<and> p_value (para_output_max b) = smax
        \<and> p_value (para_unit_CAPEX b) = unit_CAPEX_annual (Economics td)
        \<and> p_value (para_OPEX_variable b) = OPEX_variable (Economics td)
        \<and> set_input_carriers b = Set_initialize (input_carrier (TechnologyPerf td))
        \<and> set_output_carriers b = Set_initialize (output_carrier (TechnologyPerf td))
        \<and> var_input b =
              (if tec_type (TechnologyPerf td) \<noteq> ''RES''
               then Some \<lparr>v_index = List.product (set_t m)
                                 (Set_initialize (input_carrier (TechnologyPerf td))),
                          v_within = NonNegativeReals, v_lb = Some smin, v_ub = Some smax,
                          v_units = Some MW\<rparr>
               else None)
        \<and> var_output b =
              \<lparr>v_index = List.product (set_t m)
                           (Set_initialize (output_carrier (TechnologyPerf td))),
               v_within = NonNegativeReals, v_lb = Some 0, v_ub = Some smax,
               v_units = Some MW\<rparr>
        \<and> var_size b =
              (if size_is_int (TechnologyPerf td)
               then \<lparr>v_index = [()], v_within = NonNegativeIntegers, v_lb = Some smin,
                     v_ub = Some smax, v_units = None\<rparr>
               else \<lparr>v_index = [()], v_within = NonNegativeReals, v_lb = Some smin,
                     v_ub = Some smax, v_units = Some MW\<rparr>)
        \<and> capex_constraint g (CAPEX_model (Economics td))
             \<lparr>p_domain = Reals, p_value = unit_CAPEX_annual (Economics td),
              p_units = Per EUR (unit_size_of td)\<rparr> cfg = (Inr (const_CAPEX b), cfg')
        \<and> const_OPEX_variable b =
              map (\<lambda>t. (t, init_OPEX_variable
                             (Set_initialize (output_carrier (TechnologyPerf td)))
                             \<lparr>p_domain = Reals, p_value = OPEX_variable (Economics td),
                              p_units = Per EUR MWh\<rparr> t))
                  (set_t m)"
proof -
  from init_technology_block_Inr [OF build data] obtain b0 where
    gp: "general_part g m td cfg = (Inr b0, cfg')"
    and b: "b = b0\<lparr>archetype_part := archetype_part b\<rparr>" by blast
  define x where "x = archetype_part b"
  from b have bx: "b = b0\<lparr>archetype_part := x\<rparr>" by (simp add: x_def)
  from general_part_Inr [OF gp] obtain smin smax c where
    sz: "size_min_local (TechnologyPerf td) = Inr smin"
        "size_max_local (TechnologyPerf td) = Inr smax" "0 \<le> smin" "0 \<le> smax"
    and un: "size_is_int (TechnologyPerf td) \<and> tec_type (TechnologyPerf td) \<noteq> ''RES''
             \<longrightarrow> set_t m = [] \<or> input_carrier (TechnologyPerf td) = []"
    and cc: "capex_constraint g (CAPEX_model (Economics td))
             \<lparr>p_domain = Reals, p_value = unit_CAPEX_annual (Economics td),
              p_units = Per EUR (unit_size_of td)\<rparr> cfg = (Inr c, cfg')"
    and eq: "b0 =
           \<lparr>para_size_min =
              \<lparr>p_domain = NonNegativeReals, p_value = smin, p_units = unit_size_of td\<rparr>,
            para_size_max =
              \<lparr>p_domain = NonNegativeReals, p_value = smax, p_units = unit_size_of td\<rparr>,
            para_output_max = \<lparr>p_domain = NonNegativeReals, p_value = smax, p_units = MW\<rparr>,
            para_unit_CAPEX =
              \<lparr>p_domain = Reals, p_value = unit_CAPEX_annual (Economics td),
               p_units = Per EUR (unit_size_of td)\<rparr>,
            para_OPEX_variable =
              \<lparr>p_domain = Reals, p_value = OPEX_variable (Economics td),
               p_units = Per EUR MWh\<rparr>,
            para_OPEX_fixed =
              \<lparr>p_domain = Reals, p_value = OPEX_fixed (Economics td), p_units = Per EUR EUR\<rparr>,
            set_input_carriers = Set_initialize (input_carrier (TechnologyPerf td)),
            set_output_carriers = Set_initialize (output_carrier (TechnologyPerf td)),
            var_input =
              (if tec_type (TechnologyPerf td) \<noteq> ''RES''
               then Some \<lparr>v_index = List.product (set_t m)
                                 (Set_initialize (input_carrier (TechnologyPerf td))),
                          v_within = NonNegativeReals, v_lb = Some smin, v_ub = Some smax,
                          v_units = Some MW\<rparr>
               else None),
            var_output =
              \<lparr>v_index = List.product (set_t m)
                           (Set_initialize (output_carrier (TechnologyPerf td))),
               v_within = NonNegativeReals, v_lb = Some 0, v_ub = Some smax,
               v_units = Some MW\<rparr>,
            var_size =
              (if size_is_int (TechnologyPerf td)
               then \<lparr>v_index = [()], v_within = NonNegativeIntegers, v_lb = Some smin,
                     v_ub = Some smax, v_units = None\<rparr>
               else \<lparr>v_index = [()], v_within = NonNegativeReals, v_lb = Some smin,
                     v_ub = Some smax, v_units = Some MW\<rparr>),
            var_CAPEX = \<lparr>v_index = [()], v_within = Reals, v_lb = None, v_ub = None,
                         v_units = Some EUR\<rparr>,
            var_OPEX_variable = \<lparr>v_index = set_t m, v_within = Reals, v_lb = None,
                                 v_ub = None, v_units = Some EUR\<rparr>,
            var_OPEX_fixed = \<lparr>v_index = [()], v_within = Reals, v_lb = None, v_ub = None,
                              v_units = Some EUR\<rparr>,
            const_CAPEX = c,
            const_OPEX_fixed =
              Constraint (EqR (MulE (VarE V_CAPEX) (ParamE (OPEX_fixed (Economics td))))
                              (VarE V_OPEX_fixed)),
            const_OPEX_variable =
              map (\<lambda>t. (t, init_OPEX_variable
                             (Set_initialize (output_carrier (TechnologyPerf td)))
                             \<lparr>p_domain = Reals, p_value = OPEX_variable (Economics td),
                              p_units = Per EUR MWh\<rparr> t))
                  (set_t m),
            archetype_part = None\<rparr>"
    by blast
  show ?thesis
    unfolding bx eq using sz cc un by simp
qed

lemmas ex_defs = ex_lib_def ex_globals_def ex_cfg_def ex_model_def ex_economics_def
  td_boiler_def td_pv_def td_crossed_def td_kiln_def td_electrolyser_def td_chp_def
  td_reformer_def td_stack_def ex_tecs_def ex_topology_def ex_data_def ex_node_def

lemmas builder_defs = init_technology_block_def general_part_def technology_types_def
  parameters_def decision_variables_def unit_size_of_def size_min_local_def
  size_max_local_def Param_def capex_constraint_def init_OPEX_variable_def Var_def
  Set_initialize_def Let_def

section \<open>Resolution of the size bounds\<close>

text \<open>
  C2, as stated, fails: with \<^verbatim>\<open>size_min = [5, 6]\<close> and \<^verbatim>\<open>size_max = [1, 2]\<close> the
  builder completes the block with \<^verbatim>\<open>para_size_min = 5\<close> and \<^verbatim>\<open>para_size_max = 2\<close>,
  so the resolved minimum exceeds the resolved maximum.
\<close>

theorem size_bounds_crossed_counterexample:
  "case fst (init_technology_block ex_lib ex_globals ex_model (ex_data []) ''onshore''
               ''crossed'' ex_cfg) of
     Inl e \<Rightarrow> False
   | Inr b \<Rightarrow> size_min (TechnologyPerf td_crossed) = Collection [5, 6]
            \<and> size_max (TechnologyPerf td_crossed) = Collection [1, 2]
            \<and> p_value (para_size_min b) = 5 \<and> p_value (para_size_max b) = 2
            \<and> \<not> p_value (para_size_min b) \<le> p_value (para_size_max b)"
  by (simp add: ex_defs builder_defs)

text \<open>
  C2, amended: for every technology whose block the builder completes, a size bound
  given as a single number is used as it is, and one given as a collection is resolved
  to the minimum (for \<^verbatim>\<open>size_min\<close>) or maximum (for \<^verbatim>\<open>size_max\<close>) of the collection,
  which is then non-empty. The two bounds are resolved independently of each other: for
  two collections the resolved minimum is at most the resolved maximum exactly when some
  entry of the \<^verbatim>\<open>size_min\<close> collection is at most some entry of the \<^verbatim>\<open>size_max\<close>
  collection.
\<close>

theorem size_parameters_resolved:
  assumes build: "init_technology_block lib g m data nodename tec cfg = (Inr b, cfg')"
    and data: "technology_data data nodename = Some tecs" "tecs tec = Some td"
  shows "p_value (para_size_min b) =
           (case size_min (TechnologyPerf td) of Number v \<Rightarrow> v | Collection xs \<Rightarrow> Min (set xs))
       \<and> p_value (para_size_max b) =
           (case size_max (TechnologyPerf td) of Number v \<Rightarrow> v | Collection ys \<Rightarrow> Max (set ys))
       \<and> (\<forall>xs ys. size_min (TechnologyPerf td) = Collection xs
                  \<and> size_max (TechnologyPerf td) = Collection ys
             \<longrightarrow> xs \<noteq> [] \<and> ys \<noteq> []
               \<and> (p_value (para_size_min b) \<le> p_value (para_size_max b)
                    \<longleftrightarrow> (\<exists>x\<in>set xs. \<exists>y\<in>set ys. x \<le> y)))"
proof -
  from built_block_fields [OF build data] obtain smin smax where
    smin: "size_min_local (TechnologyPerf td) = Inr smin"
    and smax: "size_max_local (TechnologyPerf td) = Inr smax"
    and vmin: "p_value (para_size_min b) = smin"
    and vmax: "p_value (para_size_max b) = smax"
    by blast
  have c1: "smin = (case size_min (TechnologyPerf td) of
                     Number v \<Rightarrow> v | Collection xs \<Rightarrow> Min (set xs))"
    using smin by (auto simp: size_min_local_def py_min_Inr split: size_spec.splits)
  have c2: "smax = (case size_max (TechnologyPerf td) of
                     Number v \<Rightarrow> v | Collection ys \<Rightarrow> Max (set ys))"
    using smax by (auto simp: size_max_local_def py_max_Inr split: size_spec.splits)
  have c3: "xs \<noteq> [] \<and> ys \<noteq> [] \<and> (smin \<le> smax \<longleftrightarrow> (\<exists>x\<in>set xs. \<exists>y\<in>set ys. x \<le> y))"
    if "size_min (TechnologyPerf td) = Collection xs"
      and "size_max (TechnologyPerf td) = Collection ys" for xs ys
  proof -
    from that smin smax have ne: "xs \<noteq> []" "ys \<noteq> []"
      and eq: "smin = Min (set xs)" "smax = Max (set ys)"
      by (auto simp: size_min_local_def size_max_local_def py_min_Inr py_max_Inr)
    have "Min (set xs) \<le> Max (set ys) \<longleftrightarrow> (\<exists>x\<in>set xs. \<exists>y\<in>set ys. x \<le> y)"
    proof
      assume le: "Min (set xs) \<le> Max (set ys)"
      have "Min (set xs) \<in> set xs" using ne by (intro Min_in) simp_all
      moreover have "Max (set ys) \<in> set ys" using ne by (intro Max_in) simp_all
      ultimately show "\<exists>x\<in>set xs. \<exists>y\<in>set ys. x \<le> y" using le by blast
    next
      assume "\<exists>x\<in>set xs. \<exists>y\<in>set ys. x \<le> y"
      then obtain x y where xy: "x \<in> set xs" "y \<in> set ys" "x \<le> y" by blast
      then have "Min (set xs) \<le> x" "y \<le> Max (set ys)" by simp_all
      with xy show "Min (set xs) \<le> Max (set ys)" by linarith
    qed
    with ne eq show ?thesis by simp
  qed
  show ?thesis unfolding vmin vmax using c1 c2 c3 by blast
qed

theorem size_parameters_resolved_witness:
  "(\<exists>b. init_technology_block ex_lib ex_globals ex_model (ex_data []) ''onshore'' ''pv'' ex_cfg
          = (Inr b, ex_cfg)
        \<and> p_value (para_size_min b) = 0 \<and> p_value (para_size_max b) = 8)
   \<and> (\<exists>b. init_technology_block ex_lib ex_globals ex_model (ex_data []) ''onshore'' ''boiler''
            ex_cfg = (Inr b, ex_cfg)
        \<and> p_value (para_size_min b) = 2 \<and> p_value (para_size_max b) = 10)"
proof -
  have d: "technology_data (ex_data []) ''onshore'' = Some ex_tecs"
    by (simp add: ex_data_def)
  have t1: "ex_tecs ''pv'' = Some td_pv" and t2: "ex_tecs ''boiler'' = Some td_boiler"
    by (simp_all add: ex_tecs_def)
  obtain b1 where b1: "init_technology_block ex_lib ex_globals ex_model (ex_data [])
      ''onshore'' ''pv'' ex_cfg = (Inr b1, ex_cfg)"
    by (simp add: ex_defs builder_defs)
  obtain b2 where b2: "init_technology_block ex_lib ex_globals ex_model (ex_data [])
      ''onshore'' ''boiler'' ex_cfg = (Inr b2, ex_cfg)"
    by (simp add: ex_defs builder_defs)
  from size_parameters_resolved [OF b1 d t1]
  have "p_value (para_size_min b1) = 0 \<and> p_value (para_size_max b1) = 8"
    by (simp add: td_pv_def)
  moreover from size_parameters_resolved [OF b2 d t2]
  have "p_value (para_size_min b2) = 2 \<and> p_value (para_size_max b2) = 10"
    by (simp add: td_boiler_def)
  ultimately show ?thesis using b1 b2 by blast
qed

section \<open>Decision variables of a technology\<close>

lemma ex_data_onshore: "technology_data (ex_data techs) ''onshore'' = Some ex_tecs"
  by (simp add: ex_data_def)

lemma ex_tecs_lookup:
  "ex_tecs ''boiler'' = Some td_boiler" "ex_tecs ''pv'' = Some td_pv"
  "ex_tecs ''crossed'' = Some td_crossed" "ex_tecs ''kiln'' = Some td_kiln"
  "ex_tecs ''electrolyser'' = Some td_electrolyser" "ex_tecs ''chp'' = Some td_chp"
  "ex_tecs ''reformer'' = Some td_reformer" "ex_tecs ''stack'' = Some td_stack"
  by (simp_all add: ex_tecs_def)

lemma ex_build_boiler:
  "\<exists>b. init_technology_block ex_lib ex_globals ex_model (ex_data []) ''onshore'' ''boiler''
         ex_cfg = (Inr b, ex_cfg)
       \<and> p_value (para_size_min b) = 2 \<and> p_value (para_size_max b) = 10"
  by (simp add: ex_defs builder_defs)

lemma ex_build_pv:
  "\<exists>b. init_technology_block ex_lib ex_globals ex_model (ex_data []) ''onshore'' ''pv''
         ex_cfg = (Inr b, ex_cfg)"
  by (simp add: ex_defs builder_defs)

text \<open>
  C1: the claim (lower bound 0 for the input variable) is what the sibling declaration
  of the output variable does, and the source marks the bounds of the input variable as
  provisional (\<^verbatim>\<open>TODO: calculate different bounds\<close>). The code declares the input
  variable with the size parameters as bounds. At the boiler, which is not of archetype
  RES and has \<^verbatim>\<open>size_min = 2\<close> and \<^verbatim>\<open>size_max = 10\<close>, the builder completes the block;
  the input variable at time step 1 and carrier gas has the lower bound 2, not 0, and
  does not admit the value 1, while the output variable of the same block has the lower
  bound 0 and admits it.
\<close>

theorem input_lower_bound_is_size_min:
  "case fst (init_technology_block ex_lib ex_globals ex_model (ex_data []) ''onshore''
               ''boiler'' ex_cfg) of
     Inl e \<Rightarrow> False
   | Inr b \<Rightarrow>
       (case var_input b of
          None \<Rightarrow> False
        | Some v \<Rightarrow> (1, ''gas'') \<in> set (v_index v) \<and> v_lb v = Some 2 \<and> v_lb v \<noteq> Some 0
                    \<and> v_ub v = Some 10 \<and> \<not> admits v 1
                    \<and> v_lb (var_output b) = Some 0 \<and> admits (var_output b) 1)"
  by (simp add: ex_defs builder_defs admits_def)

text \<open>
  C7: the input variable exists exactly for technologies that are not of archetype RES,
  and then its indices are the pairs of a time step and a declared input carrier; the
  indices of the output variable are the pairs of a time step and a declared output
  carrier. A carrier outside the declared set has no variable.
\<close>

theorem variables_only_for_declared_carriers:
  assumes build: "init_technology_block lib g m data nodename tec cfg = (Inr b, cfg')"
    and data: "technology_data data nodename = Some tecs" "tecs tec = Some td"
  shows "(case var_input b of
            None \<Rightarrow> tec_type (TechnologyPerf td) = ''RES''
          | Some v \<Rightarrow> tec_type (TechnologyPerf td) \<noteq> ''RES''
              \<and> set (v_index v) = set (set_t m) \<times> set (input_carrier (TechnologyPerf td)))
       \<and> set (v_index (var_output b))
           = set (set_t m) \<times> set (output_carrier (TechnologyPerf td))"
proof -
  from built_block_fields [OF build data] obtain smin smax where
    vin: "var_input b =
              (if tec_type (TechnologyPerf td) \<noteq> ''RES''
               then Some \<lparr>v_index = List.product (set_t m)
                                 (Set_initialize (input_carrier (TechnologyPerf td))),
                          v_within = NonNegativeReals, v_lb = Some smin, v_ub = Some smax,
                          v_units = Some MW\<rparr>
               else None)"
    and vout: "var_output b =
              \<lparr>v_index = List.product (set_t m)
                           (Set_initialize (output_carrier (TechnologyPerf td))),
               v_within = NonNegativeReals, v_lb = Some 0, v_ub = Some smax,
               v_units = Some MW\<rparr>"
    by blast
  show ?thesis
    by (simp add: vin vout set_Set_initialize)
qed

theorem variables_only_for_declared_carriers_witness:
  "(\<exists>b. init_technology_block ex_lib ex_globals ex_model (ex_data []) ''onshore'' ''pv'' ex_cfg
          = (Inr b, ex_cfg)
        \<and> var_input b = None
        \<and> set (v_index (var_output b)) = {(1, ''electricity''), (2, ''electricity'')})
   \<and> (\<exists>b v. init_technology_block ex_lib ex_globals ex_model (ex_data []) ''onshore''
              ''boiler'' ex_cfg = (Inr b, ex_cfg)
        \<and> var_input b = Some v
        \<and> set (v_index v) = {(1, ''gas''), (2, ''gas'')}
        \<and> set (v_index (var_output b)) = {(1, ''heat''), (2, ''heat'')})"
proof -
  from ex_build_pv obtain b1 where
    b1: "init_technology_block ex_lib ex_globals ex_model (ex_data []) ''onshore'' ''pv''
          ex_cfg = (Inr b1, ex_cfg)" ..
  from ex_build_boiler obtain b2 where
    b2: "init_technology_block ex_lib ex_globals ex_model (ex_data []) ''onshore'' ''boiler''
          ex_cfg = (Inr b2, ex_cfg)" by blast
  have s1: "set (set_t ex_model) \<times> set (output_carrier (TechnologyPerf td_pv))
      = {(1, ''electricity''), (2, ''electricity'')}"
    by (auto simp: ex_model_def td_pv_def)
  have s2: "set (set_t ex_model) \<times> set (input_carrier (TechnologyPerf td_boiler))
      = {(1, ''gas''), (2, ''gas'')}"
    "set (set_t ex_model) \<times> set (output_carrier (TechnologyPerf td_boiler))
      = {(1, ''heat''), (2, ''heat'')}"
    by (auto simp: ex_model_def td_boiler_def)
  note f1 = variables_only_for_declared_carriers [OF b1 ex_data_onshore ex_tecs_lookup(2)]
  note f2 = variables_only_for_declared_carriers [OF b2 ex_data_onshore ex_tecs_lookup(1)]
  have res: "tec_type (TechnologyPerf td_pv) = ''RES''"
    and non_res: "tec_type (TechnologyPerf td_boiler) \<noteq> ''RES''"
    by (simp_all add: td_pv_def td_boiler_def)
  have r1: "var_input b1 = None"
    using f1 res by (cases "var_input b1") simp_all
  have o1: "set (v_index (var_output b1)) = {(1, ''electricity''), (2, ''electricity'')}"
    using f1 s1 by simp
  obtain v where v: "var_input b2 = Some v"
    using f2 non_res by (cases "var_input b2") simp_all
  have r2: "set (v_index v) = {(1, ''gas''), (2, ''gas'')}"
    using f2 v s2(1) by simp
  have o2: "set (v_index (var_output b2)) = {(1, ''heat''), (2, ''heat'')}"
    using f2 s2(2) by simp
  from b1 b2 r1 o1 v r2 o2 show ?thesis by blast
qed

section \<open>Variable OPEX\<close>

text \<open>
  C4: the constraint \<^verbatim>\<open>const_OPEX_variable\<close> is indexed by the time steps of the
  horizon, and the constraint at time step \<open>t\<close> holds under an assignment of the
  variables exactly when the sum of \<open>output[t, c]\<close> over the declared output carriers
  \<open>c\<close>, times the variable OPEX rate, equals \<open>OPEX_variable[t]\<close>.
\<close>

theorem variable_OPEX_constraint:
  assumes build: "init_technology_block lib g m data nodename tec cfg = (Inr b, cfg')"
    and data: "technology_data data nodename = Some tecs" "tecs tec = Some td"
  shows "\<exists>rule. const_OPEX_variable b = map (\<lambda>t. (t, rule t)) (set_t m)
           \<and> (\<forall>t \<sigma>. holds \<sigma> (rule t) \<longleftrightarrow>
                 (\<Sum>c\<in>set (output_carrier (TechnologyPerf td)). \<sigma> (V_output t c))
                   * OPEX_variable (Economics td) = \<sigma> (V_OPEX_variable t))"
proof -
  let ?outs = "Set_initialize (output_carrier (TechnologyPerf td))"
  let ?p = "\<lparr>p_domain = Reals, p_value = OPEX_variable (Economics td), p_units = Per EUR MWh\<rparr>"
  from built_block_fields [OF build data] have
    c: "const_OPEX_variable b = map (\<lambda>t. (t, init_OPEX_variable ?outs ?p t)) (set_t m)"
    by blast
  have "holds \<sigma> (init_OPEX_variable ?outs ?p t) \<longleftrightarrow>
          (\<Sum>c\<in>set (output_carrier (TechnologyPerf td)). \<sigma> (V_output t c))
            * OPEX_variable (Economics td) = \<sigma> (V_OPEX_variable t)" for t \<sigma>
  proof -
    have "sum_list (map (\<lambda>c. \<sigma> (V_output t c)) ?outs)
        = (\<Sum>c\<in>set ?outs. \<sigma> (V_output t c))"
      by (rule sum_list_distinct_conv_sum_set) (rule distinct_Set_initialize)
    then show ?thesis
      by (simp add: init_OPEX_variable_def comp_def set_Set_initialize)
  qed
  with c show ?thesis by blast
qed

theorem variable_OPEX_constraint_witness:
  "\<exists>b rule. init_technology_block ex_lib ex_globals ex_model (ex_data []) ''onshore'' ''chp''
            ex_cfg = (Inr b, ex_cfg)
     \<and> const_OPEX_variable b = [(1, rule (1::nat)), (2, rule (2::nat))]
     \<and> holds ((\<lambda>v. 0)(V_output 2 ''electricity'' := 4, V_output 2 ''heat'' := 6,
                       V_OPEX_variable 2 := 30)) (rule (2::nat))
     \<and> \<not> holds ((\<lambda>v. 0)(V_output 2 ''electricity'' := 4, V_output 2 ''heat'' := 6,
                       V_OPEX_variable 2 := 12)) (rule (2::nat))"
proof -
  obtain b where
    b: "init_technology_block ex_lib ex_globals ex_model (ex_data []) ''onshore'' ''chp''
          ex_cfg = (Inr b, ex_cfg)"
    by (simp add: ex_defs builder_defs)
  from variable_OPEX_constraint [OF b ex_data_onshore ex_tecs_lookup(6)]
  obtain rule where r: "const_OPEX_variable b = map (\<lambda>t. (t, rule t)) (set_t ex_model)"
    and h: "\<And>t \<sigma>. holds \<sigma> (rule t) \<longleftrightarrow>
                 (\<Sum>c\<in>set (output_carrier (TechnologyPerf td_chp)). \<sigma> (V_output t c))
                   * OPEX_variable (Economics td_chp) = \<sigma> (V_OPEX_variable t)"
    by blast
  have r': "const_OPEX_variable b = [(1, rule (1::nat)), (2, rule (2::nat))]"
    using r by (simp add: ex_model_def)
  have outs: "set (output_carrier (TechnologyPerf td_chp)) = {''electricity'', ''heat''}"
    and rate: "OPEX_variable (Economics td_chp) = 3"
    by (simp_all add: td_chp_def ex_economics_def)
  have "holds ((\<lambda>v. 0)(V_output 2 ''electricity'' := 4, V_output 2 ''heat'' := 6,
                       V_OPEX_variable 2 := 30)) (rule (2::nat))"
    unfolding h outs rate by simp
  moreover have "\<not> holds ((\<lambda>v. 0)(V_output 2 ''electricity'' := 4, V_output 2 ''heat'' := 6,
                       V_OPEX_variable 2 := 12)) (rule (2::nat))"
    unfolding h outs rate by simp
  ultimately show ?thesis using b r' by blast
qed

section \<open>The CAPEX constraint\<close>

text \<open>
  C3, as stated, fails: the kiln has \<^verbatim>\<open>CAPEX_model = 3\<close>. Neither branch of lines
  133--142 is taken, the builder completes the block, and the block has no CAPEX
  constraint of either form.
\<close>

theorem no_capex_constraint_counterexample:
  "case fst (init_technology_block ex_lib ex_globals ex_model (ex_data []) ''onshore''
               ''kiln'' ex_cfg) of
     Inl e \<Rightarrow> False
   | Inr b \<Rightarrow> CAPEX_model (Economics td_kiln) = 3 \<and> const_CAPEX b = None"
  by (simp add: ex_defs builder_defs)

text \<open>
  C3, amended: a completed technology block carries at most one CAPEX constraint, and
  \<^verbatim>\<open>capex_model\<close> selects it. For \<^verbatim>\<open>capex_model == 1\<close> it is the constraint
  \<open>size * unit_CAPEX = CAPEX\<close>; for \<^verbatim>\<open>capex_model == 2\<close> it is the piecewise
  constraint of CAPEX over size with equality and SOS2 representation on the breakpoints
  \<^verbatim>\<open>bp_x\<close>, \<^verbatim>\<open>bp_y\<close>, which are then bound; for any other value the block has no CAPEX
  constraint.
\<close>

theorem capex_constraint_by_model:
  assumes build: "init_technology_block lib g m data nodename tec cfg = (Inr b, cfg')"
    and data: "technology_data data nodename = Some tecs" "tecs tec = Some td"
  shows "(CAPEX_model (Economics td) = 1 \<longrightarrow>
            (\<exists>r. const_CAPEX b = Some (Constraint r)
               \<and> (\<forall>\<sigma>. holds \<sigma> r \<longleftrightarrow>
                     \<sigma> V_size * unit_CAPEX_annual (Economics td) = \<sigma> V_CAPEX)))
       \<and> (CAPEX_model (Economics td) = 2 \<longrightarrow>
            (\<exists>pts vals. bp_x g = Some pts \<and> bp_y g = Some vals
               \<and> const_CAPEX b = Some (Piecewise V_CAPEX V_size pts ''EQ'' vals ''SOS2'')))
       \<and> (CAPEX_model (Economics td) \<noteq> 1 \<and> CAPEX_model (Economics td) \<noteq> 2 \<longrightarrow>
            const_CAPEX b = None)"
proof -
  from built_block_fields [OF build data] have
    cc: "capex_constraint g (CAPEX_model (Economics td))
             \<lparr>p_domain = Reals, p_value = unit_CAPEX_annual (Economics td),
              p_units = Per EUR (unit_size_of td)\<rparr> cfg = (Inr (const_CAPEX b), cfg')"
    by blast
  have lin: "\<exists>r. const_CAPEX b = Some (Constraint r)
               \<and> (\<forall>\<sigma>. holds \<sigma> r \<longleftrightarrow>
                     \<sigma> V_size * unit_CAPEX_annual (Economics td) = \<sigma> V_CAPEX)"
    if "CAPEX_model (Economics td) = 1"
  proof -
    from cc that have "const_CAPEX b = Some (Constraint
        (EqR (MulE (VarE V_size) (ParamE (unit_CAPEX_annual (Economics td)))) (VarE V_CAPEX)))"
      by (auto simp: capex_constraint_def)
    then show ?thesis by simp
  qed
  have pw: "\<exists>pts vals. bp_x g = Some pts \<and> bp_y g = Some vals
               \<and> const_CAPEX b = Some (Piecewise V_CAPEX V_size pts ''EQ'' vals ''SOS2'')"
    if "CAPEX_model (Economics td) = 2"
    using cc that by (auto simp: capex_constraint_def Let_def split: option.splits)
  have none: "const_CAPEX b = None"
    if "CAPEX_model (Economics td) \<noteq> 1" "CAPEX_model (Economics td) \<noteq> 2"
    using cc that by (auto simp: capex_constraint_def)
  from lin pw none show ?thesis by blast
qed

theorem capex_constraint_by_model_witness:
  "(\<exists>b r. init_technology_block ex_lib ex_globals ex_model (ex_data []) ''onshore'' ''boiler''
            ex_cfg = (Inr b, ex_cfg)
        \<and> const_CAPEX b = Some (Constraint r)
        \<and> holds ((\<lambda>v. 0)(V_size := 5, V_CAPEX := 500)) r)
   \<and> (\<exists>b cfg'. init_technology_block ex_lib ex_globals_bp ex_model (ex_data []) ''onshore''
            ''electrolyser'' ex_cfg = (Inr b, cfg')
        \<and> const_CAPEX b = Some (Piecewise V_CAPEX V_size [0, 6] ''EQ'' [0, 500] ''SOS2''))
   \<and> (\<exists>b. init_technology_block ex_lib ex_globals ex_model (ex_data []) ''onshore'' ''kiln''
            ex_cfg = (Inr b, ex_cfg)
        \<and> const_CAPEX b = None)"
proof -
  from ex_build_boiler obtain b1 where
    b1: "init_technology_block ex_lib ex_globals ex_model (ex_data []) ''onshore'' ''boiler''
          ex_cfg = (Inr b1, ex_cfg)" by blast
  obtain b2 cfg2 where
    b2: "init_technology_block ex_lib ex_globals_bp ex_model (ex_data []) ''onshore''
          ''electrolyser'' ex_cfg = (Inr b2, cfg2)"
    by (simp add: ex_defs ex_globals_bp_def builder_defs)
  obtain b3 where
    b3: "init_technology_block ex_lib ex_globals ex_model (ex_data []) ''onshore'' ''kiln''
          ex_cfg = (Inr b3, ex_cfg)"
    by (simp add: ex_defs builder_defs)
  have m1: "CAPEX_model (Economics td_boiler) = 1"
    and u1: "unit_CAPEX_annual (Economics td_boiler) = 100"
    and m2: "CAPEX_model (Economics td_electrolyser) = 2"
    and m3: "CAPEX_model (Economics td_kiln) \<noteq> 1" "CAPEX_model (Economics td_kiln) \<noteq> 2"
    by (simp_all add: td_boiler_def td_electrolyser_def td_kiln_def ex_economics_def)
  from capex_constraint_by_model [OF b1 ex_data_onshore ex_tecs_lookup(1)] m1
  obtain r where r: "const_CAPEX b1 = Some (Constraint r)"
    and h: "\<And>\<sigma>. holds \<sigma> r \<longleftrightarrow> \<sigma> V_size * unit_CAPEX_annual (Economics td_boiler) = \<sigma> V_CAPEX"
    by blast
  have h1: "holds ((\<lambda>v. 0)(V_size := 5, V_CAPEX := 500)) r"
    unfolding h u1 by simp
  from capex_constraint_by_model [OF b2 ex_data_onshore ex_tecs_lookup(5)] m2
  have p2: "const_CAPEX b2 = Some (Piecewise V_CAPEX V_size [0, 6] ''EQ'' [0, 500] ''SOS2'')"
    by (auto simp: ex_globals_bp_def)
  from capex_constraint_by_model [OF b3 ex_data_onshore ex_tecs_lookup(4)] m3
  have n3: "const_CAPEX b3 = None" by blast
  from b1 r h1 b2 p2 b3 n3 show ?thesis by blast
qed

section \<open>Archetype dispatch and build-time checks\<close>

lemma parameters_ok:
  assumes "size_min_local (TechnologyPerf td) = Inr smin"
    and "size_max_local (TechnologyPerf td) = Inr smax" and "0 \<le> smin" and "0 \<le> smax"
  shows "\<exists>ps. parameters td = Inr ps"
  unfolding parameters_def Let_def using assms by (simp add: Param_def)

text \<open>
  A technology whose size bounds resolve to non-negative numbers and whose input
  variable, if it has one, is bounded by parameters in MW (its size is not integer)
  arrives at the cost model.
\<close>

lemma reaches_cost_modelI:
  assumes smin: "size_min_local (TechnologyPerf td) = Inr smin" "0 \<le> smin"
    and smax: "size_max_local (TechnologyPerf td) = Inr smax" "0 \<le> smax"
    and units: "tec_type (TechnologyPerf td) = ''RES'' \<or> \<not> size_is_int (TechnologyPerf td)"
  shows "reaches_cost_model m td"
proof -
  from parameters_ok [OF smin(1) smax(1) smin(2) smax(2)]
  obtain p1 p2 p3 p4 p5 p6 where ps: "parameters td = Inr (p1, p2, p3, p4, p5, p6)"
    by (metis prod_cases6)
  from ps [unfolded parameters_Inr] have u: "p_units p1 = unit_size_of td"
    "p_units p2 = unit_size_of td" "p_units p3 = MW"
    by auto
  have "\<exists>vs. decision_variables m td s_in s_out p1 p2 p3 = Inr vs" for s_in s_out
    using units
    by (auto simp: decision_variables_def Var_def Let_def u unit_size_of_def)
  then obtain vs where
    "decision_variables m td (Set_initialize (input_carrier (TechnologyPerf td)))
       (Set_initialize (output_carrier (TechnologyPerf td))) p1 p2 p3 = Inr vs"
    by blast
  then show ?thesis
    by (simp add: reaches_cost_model_def ps)
qed

lemma reaches_cost_modelD:
  assumes "reaches_cost_model m td"
  shows "\<exists>p1 p2 p3 p4 p5 p6 vs. parameters td = Inr (p1, p2, p3, p4, p5, p6)
           \<and> decision_variables m td (Set_initialize (input_carrier (TechnologyPerf td)))
                 (Set_initialize (output_carrier (TechnologyPerf td))) p1 p2 p3 = Inr vs"
  using assms unfolding reaches_cost_model_def
  by (auto split: sum.splits prod.splits)

text \<open>
  Once the cost model is reached, the general part ends as the CAPEX constraint does: with
  its exception, or with a block.
\<close>

lemma general_part_reached:
  assumes "reaches_cost_model m td"
  shows "\<exists>p. (case capex_constraint g (CAPEX_model (Economics td)) p cfg of
                (Inl e, cfg') \<Rightarrow>
                  (general_part g m td cfg :: (error + 'x tec_block) \<times> presolve) = (Inl e, cfg')
              | (Inr c, cfg') \<Rightarrow>
                  (\<exists>b :: 'x tec_block. general_part g m td cfg = (Inr b, cfg')))"
proof -
  from reaches_cost_modelD [OF assms] obtain p1 p2 p3 p4 p5 p6 vs where
    ps: "parameters td = Inr (p1, p2, p3, p4, p5, p6)"
    and dv: "decision_variables m td (Set_initialize (input_carrier (TechnologyPerf td)))
                 (Set_initialize (output_carrier (TechnologyPerf td))) p1 p2 p3 = Inr vs"
    by blast
  obtain v1 v2 v3 v4 v5 v6 where vs: "vs = (v1, v2, v3, v4, v5, v6)"
    by (metis prod_cases6)
  have "case capex_constraint g (CAPEX_model (Economics td)) p4 cfg of
                (Inl e, cfg') \<Rightarrow>
                  (general_part g m td cfg :: (error + 'x tec_block) \<times> presolve) = (Inl e, cfg')
              | (Inr c, cfg') \<Rightarrow>
                  (\<exists>b :: 'x tec_block. general_part g m td cfg = (Inr b, cfg'))"
    unfolding general_part_def Let_def
    by (simp add: ps dv vs split: prod.splits sum.splits)
  then show ?thesis ..
qed

lemma general_part_not_reached:
  assumes "\<not> reaches_cost_model m td"
  shows "snd (general_part g m td cfg :: (error + 'x tec_block) \<times> presolve) = cfg"
  using assms unfolding general_part_def Let_def reaches_cost_model_def
  by (auto split: prod.splits sum.splits)



text \<open>
  C9, as stated, fails: the technology \<open>crossed\<close> has the resolved bounds
  \<open>size_min = 5 > size_max = 2\<close> and the input carrier \<open>hydrogen\<close>, which is not in the
  global carrier set. The builder reports nothing and completes the block, with the
  crossed bounds on the size variable.
\<close>

theorem no_bounds_validation_counterexample:
  "case fst (init_technology_block ex_lib ex_globals ex_model (ex_data []) ''onshore''
               ''crossed'' ex_cfg) of
     Inl e \<Rightarrow> False
   | Inr b \<Rightarrow> p_value (para_size_min b) = 5 \<and> p_value (para_size_max b) = 2
            \<and> v_lb (var_size b) = Some 5 \<and> v_ub (var_size b) = Some 2
            \<and> ''hydrogen'' \<in> set (set_input_carriers b)
            \<and> ''hydrogen'' \<notin> set (set_carriers ex_model)"
  by (simp add: ex_defs builder_defs)

text \<open>
  C9, amended: at submodel-build time the builder neither compares \<^verbatim>\<open>size_min\<close> with
  \<^verbatim>\<open>size_max\<close> nor checks the carriers of the technology against the global carrier
  set, and reports neither inconsistency. For every technology whose input variable can
  be declared in MW (it is of archetype RES or its size is not integer), with a cost
  model other than the piecewise one and an archetype library that raises nothing, the
  block is completed exactly when both resolved bounds are non-negative (the domain of
  the two size parameters), whatever the order of the two bounds and whatever the
  carriers; the completed block has the resolved bounds on its size variable and the
  declared carriers as its carrier sets.
\<close>

theorem builder_checks_sign_only:
  fixes lib :: "'x archetype_library"
  assumes data: "technology_data data nodename = Some tecs" "tecs tec = Some td"
    and smin: "size_min_local (TechnologyPerf td) = Inr smin"
    and smax: "size_max_local (TechnologyPerf td) = Inr smax"
    and units: "tec_type (TechnologyPerf td) = ''RES'' \<or> \<not> size_is_int (TechnologyPerf td)"
    and capex: "CAPEX_model (Economics td) \<noteq> 2"
    and lib: "\<And>b0. \<exists>b'. technology_types lib m td b0 = Inr b'"
  shows "(0 \<le> smin \<and> 0 \<le> smax \<longleftrightarrow>
           (\<exists>b. init_technology_block lib g m data nodename tec cfg = (Inr b, cfg)))
       \<and> (\<forall>b cfg'. init_technology_block lib g m data nodename tec cfg = (Inr b, cfg')
             \<longrightarrow> v_lb (var_size b) = Some smin \<and> v_ub (var_size b) = Some smax
               \<and> set (set_input_carriers b) = set (input_carrier (TechnologyPerf td))
               \<and> set (set_output_carriers b) = set (output_carrier (TechnologyPerf td)))"
proof -
  have fields: "v_lb (var_size b) = Some smin \<and> v_ub (var_size b) = Some smax
               \<and> set (set_input_carriers b) = set (input_carrier (TechnologyPerf td))
               \<and> set (set_output_carriers b) = set (output_carrier (TechnologyPerf td))
               \<and> 0 \<le> smin \<and> 0 \<le> smax"
    if "init_technology_block lib g m data nodename tec cfg = (Inr b, cfg')" for b cfg'
    using built_block_fields [OF that data] smin smax
    by (auto simp: set_Set_initialize)
  have built: "\<exists>b. init_technology_block lib g m data nodename tec cfg = (Inr b, cfg)"
    if nn: "0 \<le> smin" "0 \<le> smax"
  proof -
    have r: "reaches_cost_model m td"
      by (rule reaches_cost_modelI [OF smin nn(1) smax nn(2) units])
    have cc: "\<exists>c. capex_constraint g (CAPEX_model (Economics td)) p cfg = (Inr c, cfg)" for p
      using capex by (simp add: capex_constraint_def)
    from general_part_reached [OF r, of g cfg] obtain p where
      p: "case capex_constraint g (CAPEX_model (Economics td)) p cfg of
            (Inl e, cfg') \<Rightarrow>
              (general_part g m td cfg :: (error + 'x tec_block) \<times> presolve) = (Inl e, cfg')
          | (Inr c, cfg') \<Rightarrow> (\<exists>b :: 'x tec_block. general_part g m td cfg = (Inr b, cfg'))"
      ..
    from cc [of p] obtain c where
      "capex_constraint g (CAPEX_model (Economics td)) p cfg = (Inr c, cfg)" ..
    with p have "\<exists>b0 :: 'x tec_block. general_part g m td cfg = (Inr b0, cfg)"
      by simp
    then obtain b0 :: "'x tec_block" where b0: "general_part g m td cfg = (Inr b0, cfg)" ..
    from lib [of b0] obtain b' where "technology_types lib m td b0 = Inr b'" ..
    with b0 show ?thesis
      by (simp add: init_technology_block_def data)
  qed
  from fields built show ?thesis by blast
qed

theorem builder_checks_sign_only_witness:
  "\<exists>b. init_technology_block ex_lib ex_globals ex_model (ex_data []) ''onshore'' ''crossed''
          ex_cfg = (Inr b, ex_cfg)
     \<and> v_lb (var_size b) = Some 5 \<and> v_ub (var_size b) = Some 2
     \<and> set (set_input_carriers b) = {''hydrogen''}"
proof -
  have smin: "size_min_local (TechnologyPerf td_crossed) = Inr 5"
    and smax: "size_max_local (TechnologyPerf td_crossed) = Inr 2"
    and units: "tec_type (TechnologyPerf td_crossed) = ''RES''
                \<or> \<not> size_is_int (TechnologyPerf td_crossed)"
    and capex: "CAPEX_model (Economics td_crossed) \<noteq> 2"
    and ins: "set (input_carrier (TechnologyPerf td_crossed)) = {''hydrogen''}"
    by (simp_all add: td_crossed_def size_min_local_def size_max_local_def ex_economics_def)
  have lib: "\<exists>b'. technology_types ex_lib ex_model td_crossed b0 = Inr b'" for b0
    by (simp add: technology_types_def td_crossed_def ex_lib_def)
  note f = builder_checks_sign_only [OF ex_data_onshore [of "[]"] ex_tecs_lookup(3) smin smax
      units capex lib, where g = ex_globals and cfg = ex_cfg]
  from f obtain b where
    b: "init_technology_block ex_lib ex_globals ex_model (ex_data []) ''onshore'' ''crossed''
          ex_cfg = (Inr b, ex_cfg)"
    by auto
  with f ins show ?thesis by auto
qed

section \<open>The piecewise cost model and the big-M flag\<close>

text \<open>
  The configuration after the general part: the flag is set exactly when the builder
  arrives at the cost model and the cost model is the piecewise one; otherwise the
  configuration is untouched.
\<close>

lemma snd_capex_constraint:
  "snd (capex_constraint g cm p cfg) =
     (if cm = 2 then cfg\<lparr>big_m_transformation_required := 1\<rparr> else cfg)"
  by (simp add: capex_constraint_def Let_def split: option.splits)

lemma snd_general_part:
  "snd (general_part g m td cfg :: (error + 'x tec_block) \<times> presolve) =
     (if reaches_cost_model m td \<and> CAPEX_model (Economics td) = 2
      then cfg\<lparr>big_m_transformation_required := 1\<rparr> else cfg)"
proof (cases "reaches_cost_model m td")
  case False
  then show ?thesis by (simp add: general_part_not_reached)
next
  case True
  from general_part_reached [OF True, of g cfg] obtain p where
    p: "case capex_constraint g (CAPEX_model (Economics td)) p cfg of
          (Inl e, cfg') \<Rightarrow>
            (general_part g m td cfg :: (error + 'x tec_block) \<times> presolve) = (Inl e, cfg')
        | (Inr c, cfg') \<Rightarrow> (\<exists>b :: 'x tec_block. general_part g m td cfg = (Inr b, cfg'))"
    ..
  then have "snd (general_part g m td cfg :: (error + 'x tec_block) \<times> presolve)
      = snd (capex_constraint g (CAPEX_model (Economics td)) p cfg)"
    by (auto split: prod.splits sum.splits)
  with True show ?thesis by (simp add: snd_capex_constraint)
qed

lemma snd_init_technology_block:
  assumes "technology_data data nodename = Some tecs" "tecs tec = Some td"
  shows "snd (init_technology_block lib g m data nodename tec cfg) =
     (if reaches_cost_model m td \<and> CAPEX_model (Economics td) = 2
      then cfg\<lparr>big_m_transformation_required := 1\<rparr> else cfg)"
proof -
  have "snd (init_technology_block lib g m data nodename tec cfg)
      = snd (general_part g m td cfg :: (error + 'a tec_block) \<times> presolve)"
    by (simp add: init_technology_block_def assms split: prod.splits sum.splits)
  then show ?thesis by (simp only: snd_general_part)
qed

text \<open>
  C10, as stated, fails: the reformer has \<^verbatim>\<open>capex_model == 2\<close> and
  \<^verbatim>\<open>size_min = -1\<close>, and the module binds neither \<^verbatim>\<open>bp_x\<close> nor \<^verbatim>\<open>bp_y\<close>. Declaring
  \<^verbatim>\<open>para_size_min\<close> in line 94 raises ValueError, so the builder never arrives at the
  piecewise branch: no NameError is raised and the flag is left as it was.
\<close>

theorem piecewise_not_reached_counterexample:
  "init_technology_block ex_lib ex_globals ex_model (ex_data []) ''onshore'' ''reformer''
     ex_cfg = (Inl (ValueError ''Value not in parameter domain''), ex_cfg)
   \<and> ex_tecs ''reformer'' = Some td_reformer
   \<and> CAPEX_model (Economics td_reformer) = 2
   \<and> bp_x ex_globals = None \<and> bp_y ex_globals = None
   \<and> big_m_transformation_required ex_cfg = 0"
  by (simp add: ex_defs builder_defs)

text \<open>
  C10, amended: for every technology with \<^verbatim>\<open>capex_model == 2\<close> at which the builder
  arrives at the cost model (its size bounds resolve to non-negative numbers and its
  input variable can be declared in MW: it is of archetype RES or its size is not
  integer), in a module where \<^verbatim>\<open>bp_x\<close> or \<^verbatim>\<open>bp_y\<close> is unbound, building the block
  raises NameError, and the configuration it leaves behind has the big-M flag set to 1.
  Nothing in \<^verbatim>\<open>add_technologies\<close> handles the exception: it ends the construction of the
  node's technology blocks with the flag still set.
\<close>

theorem piecewise_raises_NameError:
  fixes lib :: "'x archetype_library"
  assumes data: "technology_data data nodename = Some tecs" "tecs tec = Some td"
    and capex: "CAPEX_model (Economics td) = 2"
    and unbound: "bp_x g = None \<or> bp_y g = None"
    and smin: "size_min_local (TechnologyPerf td) = Inr smin" "0 \<le> smin"
    and smax: "size_max_local (TechnologyPerf td) = Inr smax" "0 \<le> smax"
    and units: "tec_type (TechnologyPerf td) = ''RES'' \<or> \<not> size_is_int (TechnologyPerf td)"
  shows "\<exists>name. name \<in> {''bp_x'', ''bp_y''}
           \<and> init_technology_block lib g m data nodename tec cfg
               = (Inl (NameError name), cfg\<lparr>big_m_transformation_required := 1\<rparr>)
           \<and> add_technologies lib g nodename (b_node\<lparr>set_tecsAtNode := tec # rest\<rparr>) m data cfg
               = (Inl (NameError name), cfg\<lparr>big_m_transformation_required := 1\<rparr>)"
proof -
  have r: "reaches_cost_model m td"
    by (rule reaches_cost_modelI [OF smin smax units])
  from unbound obtain name where name: "name \<in> {''bp_x'', ''bp_y''}"
    and cc: "\<And>p. capex_constraint g 2 p cfg
               = (Inl (NameError name), cfg\<lparr>big_m_transformation_required := 1\<rparr>)"
    by (cases "bp_x g"; cases "bp_y g") (auto simp: capex_constraint_def)
  from general_part_reached [OF r, of g cfg]
  have gp: "(general_part g m td cfg :: (error + 'x tec_block) \<times> presolve)
              = (Inl (NameError name), cfg\<lparr>big_m_transformation_required := 1\<rparr>)"
    by (auto simp: capex cc)
  have itb: "init_technology_block lib g m data nodename tec cfg
               = (Inl (NameError name), cfg\<lparr>big_m_transformation_required := 1\<rparr>)"
    by (simp add: init_technology_block_def data gp)
  have "add_technologies lib g nodename (b_node\<lparr>set_tecsAtNode := tec # rest\<rparr>) m data cfg
               = (Inl (NameError name), cfg\<lparr>big_m_transformation_required := 1\<rparr>)"
    by (simp add: add_technologies_def itb)
  with name itb show ?thesis by blast
qed

theorem piecewise_raises_NameError_witness:
  "init_technology_block ex_lib ex_globals ex_model (ex_data []) ''onshore'' ''electrolyser''
     ex_cfg = (Inl (NameError ''bp_x''), \<lparr>big_m_transformation_required = 1\<rparr>)
   \<and> add_technologies ex_lib ex_globals ''onshore'' (ex_node [''electrolyser'', ''boiler''])
       ex_model (ex_data []) ex_cfg
       = (Inl (NameError ''bp_x''), \<lparr>big_m_transformation_required = 1\<rparr>)
   \<and> big_m_transformation_required ex_cfg = 0"
proof -
  have capex: "CAPEX_model (Economics td_electrolyser) = 2"
    and unbound: "bp_x ex_globals = None \<or> bp_y ex_globals = None"
    and smin: "size_min_local (TechnologyPerf td_electrolyser) = Inr 0" "(0::real) \<le> 0"
    and smax: "size_max_local (TechnologyPerf td_electrolyser) = Inr 6" "(0::real) \<le> 6"
    and units: "tec_type (TechnologyPerf td_electrolyser) = ''RES''
                \<or> \<not> size_is_int (TechnologyPerf td_electrolyser)"
    by (simp_all add: td_electrolyser_def ex_economics_def ex_globals_def
        size_min_local_def size_max_local_def)
  from piecewise_raises_NameError [OF ex_data_onshore [of "[]"] ex_tecs_lookup(5) capex
      unbound smin smax units, where lib = ex_lib and m = ex_model and cfg = ex_cfg
      and b_node = "ex_node []" and rest = "[''boiler'']"]
  obtain name where
    i: "init_technology_block ex_lib ex_globals ex_model (ex_data []) ''onshore''
          ''electrolyser'' ex_cfg
        = (Inl (NameError name), ex_cfg\<lparr>big_m_transformation_required := 1\<rparr>)"
    and a: "add_technologies ex_lib ex_globals ''onshore''
          (ex_node []\<lparr>set_tecsAtNode := [''electrolyser'', ''boiler'']\<rparr>) ex_model (ex_data [])
          ex_cfg = (Inl (NameError name), ex_cfg\<lparr>big_m_transformation_required := 1\<rparr>)"
    by blast
  have "init_technology_block ex_lib ex_globals ex_model (ex_data []) ''onshore''
          ''electrolyser'' ex_cfg
        = (Inl (NameError ''bp_x''), \<lparr>big_m_transformation_required = 1\<rparr>)"
    by (simp add: ex_defs builder_defs)
  with i have n: "name = ''bp_x''" by simp
  have e: "ex_node []\<lparr>set_tecsAtNode := [''electrolyser'', ''boiler'']\<rparr>
      = ex_node [''electrolyser'', ''boiler'']"
    and c: "ex_cfg\<lparr>big_m_transformation_required := 1\<rparr> = \<lparr>big_m_transformation_required = 1\<rparr>"
    and z: "big_m_transformation_required ex_cfg = 0"
    by (simp_all add: ex_node_def ex_cfg_def)
  from i a show ?thesis unfolding n e c using z by simp
qed

text \<open>The configuration that \<^verbatim>\<open>init_technology_block\<close> leaves, on every path.\<close>

lemma snd_init_technology_block_cases:
  "snd (init_technology_block lib g m data nodename tec cfg) =
     (case technology_data data nodename of
        None \<Rightarrow> cfg
      | Some tecs \<Rightarrow>
         (case tecs tec of
            None \<Rightarrow> cfg
          | Some td \<Rightarrow>
             (if reaches_cost_model m td \<and> CAPEX_model (Economics td) = 2
              then cfg\<lparr>big_m_transformation_required := 1\<rparr> else cfg)))"
proof (cases "technology_data data nodename")
  case None
  then show ?thesis by (simp add: init_technology_block_def)
next
  case (Some tecs)
  show ?thesis
  proof (cases "tecs tec")
    case None
    with Some show ?thesis by (simp add: init_technology_block_def)
  next
    case (Some td)
    note td = \<open>technology_data data nodename = Some tecs\<close>
    show ?thesis
      by (simp only: snd_init_technology_block [OF td Some] td Some option.case)
  qed
qed

lemma init_technology_block_keeps_flag:
  "big_m_transformation_required cfg = 1 \<Longrightarrow>
   big_m_transformation_required (snd (init_technology_block lib g m data nodename tec cfg)) = 1"
  unfolding snd_init_technology_block_cases
  by (simp split: option.splits)

lemma snd_Block_invariant:
  assumes "\<And>i c. P c \<Longrightarrow> P (snd (rule i c))" and "P cfg"
  shows "P (snd (Block rule idx cfg))"
  using assms(2)
proof (induction idx arbitrary: cfg)
  case Nil
  then show ?case by simp
next
  case (Cons i idx)
  from assms(1) [OF Cons.prems, of i] have p: "P (snd (rule i cfg))" .
  show ?case
  proof (cases "rule i cfg")
    case (Pair r c)
    with p have pc: "P c" by simp
    show ?thesis
    proof (cases r)
      case (Inl e)
      with Pair pc show ?thesis by simp
    next
      case (Inr b)
      from Cons.IH [OF pc] have "P (snd (Block rule idx c))" .
      with Pair Inr show ?thesis by (auto split: prod.splits sum.splits)
    qed
  qed
qed

lemma snd_Block_unchanged:
  assumes "\<And>i c. i \<in> set idx \<Longrightarrow> snd (rule i c) = c"
  shows "snd (Block rule idx cfg) = cfg"
  using assms
proof (induction idx)
  case Nil
  then show ?case by simp
next
  case (Cons i idx)
  have r: "snd (rule i cfg) = cfg" using Cons.prems by simp
  have ih: "snd (Block rule idx cfg) = cfg" using Cons by simp
  show ?case
  proof (cases "rule i cfg")
    case (Pair x c)
    with r have "c = cfg" by simp
    with Pair ih show ?thesis by (auto split: prod.splits sum.splits)
  qed
qed

lemma snd_Block_append:
  "Block rule pre cfg = (Inr bs, cfg1) \<Longrightarrow>
   snd (Block rule (pre @ rest) cfg) = snd (Block rule rest cfg1)"
proof (induction pre arbitrary: cfg bs)
  case Nil
  then show ?case by simp
next
  case (Cons i pre)
  from Cons.prems obtain b c bs' where
    r: "rule i cfg = (Inr b, c)" and rest: "Block rule pre c = (Inr bs', cfg1)"
    by (auto split: prod.splits sum.splits)
  from Cons.IH [OF rest] have "snd (Block rule (pre @ rest) c) = snd (Block rule rest cfg1)" .
  then show ?case by (auto simp: r split: prod.splits sum.splits)
qed

lemma snd_add_technologies:
  "snd (add_technologies lib g nodename b_node m data cfg)
     = snd (Block (init_technology_block lib g m data nodename) (set_tecsAtNode b_node) cfg)"
  by (simp add: add_technologies_def split: prod.splits sum.splits)

text \<open>
  An integer-sized technology with an input does not arrive at the cost model: declaring
  its input variable in line 114 raises \<^verbatim>\<open>InconsistentUnitsError\<close>, and the flag is
  left as it was although the technology uses the piecewise cost model.
\<close>

lemma ex_stack_units_error:
  "init_technology_block ex_lib ex_globals_bp ex_model (ex_data []) ''onshore'' ''stack''
     ex_cfg = (Inl (InconsistentUnitsError dimensionless MW), ex_cfg)"
  by (simp add: ex_defs ex_globals_bp_def builder_defs)

text \<open>
  C6, as stated, fails: the only technology at the node, \<open>reformer\<close>, uses the
  piecewise cost model (and the breakpoints are bound), but \<^verbatim>\<open>size_min = -1\<close> is
  outside the domain of \<^verbatim>\<open>para_size_min\<close>, so line 94 raises ValueError. The builder
  never arrives at line 136 and the flag stays 0.
\<close>

theorem big_m_flag_not_set_counterexample:
  "add_technologies ex_lib ex_globals_bp ''onshore'' (ex_node [''reformer'']) ex_model
     (ex_data []) ex_cfg = (Inl (ValueError ''Value not in parameter domain''), ex_cfg)
   \<and> ex_tecs ''reformer'' = Some td_reformer
   \<and> CAPEX_model (Economics td_reformer) = 2
   \<and> bp_x ex_globals_bp \<noteq> None \<and> bp_y ex_globals_bp \<noteq> None
   \<and> big_m_transformation_required ex_cfg = 0"
  by (simp add: add_technologies_def ex_defs ex_globals_bp_def builder_defs)

text \<open>
  C6, amended: when some technology at the node uses the piecewise cost model and the
  builder arrives at its cost model (the blocks of the technologies listed before it are
  built, its own size bounds resolve to non-negative numbers, and it is of archetype RES
  or its size is not integer), \<^verbatim>\<open>add_technologies\<close> leaves the big-M flag set to 1,
  whether or not the construction then completes. When no technology at the node uses
  the piecewise cost model, \<^verbatim>\<open>add_technologies\<close> leaves the configuration as it found
  it: the construction does not set the flag.
\<close>

theorem big_m_flag_set_by_piecewise:
  fixes lib :: "'x archetype_library"
  shows "(\<forall>pre tec post bs cfg1 tecs td smin smax.
            set_tecsAtNode b_node = pre @ tec # post
          \<and> Block (init_technology_block lib g m data nodename) pre cfg = (Inr bs, cfg1)
          \<and> technology_data data nodename = Some tecs \<and> tecs tec = Some td
          \<and> CAPEX_model (Economics td) = 2
          \<and> size_min_local (TechnologyPerf td) = Inr smin \<and> 0 \<le> smin
          \<and> size_max_local (TechnologyPerf td) = Inr smax \<and> 0 \<le> smax
          \<and> (tec_type (TechnologyPerf td) = ''RES'' \<or> \<not> size_is_int (TechnologyPerf td))
          \<longrightarrow> big_m_transformation_required
                (snd (add_technologies lib g nodename b_node m data cfg)) = 1)
       \<and> ((\<forall>tec\<in>set (set_tecsAtNode b_node). \<forall>tecs td.
              technology_data data nodename = Some tecs \<and> tecs tec = Some td
              \<longrightarrow> CAPEX_model (Economics td) \<noteq> 2)
          \<longrightarrow> snd (add_technologies lib g nodename b_node m data cfg) = cfg)"
proof (intro conjI allI impI)
  fix pre tec post and bs :: "(string \<times> 'x tec_block) list" and cfg1 tecs td smin smax
  assume a: "set_tecsAtNode b_node = pre @ tec # post
          \<and> Block (init_technology_block lib g m data nodename) pre cfg = (Inr bs, cfg1)
          \<and> technology_data data nodename = Some tecs \<and> tecs tec = Some td
          \<and> CAPEX_model (Economics td) = 2
          \<and> size_min_local (TechnologyPerf td) = Inr smin \<and> 0 \<le> smin
          \<and> size_max_local (TechnologyPerf td) = Inr smax \<and> 0 \<le> smax
          \<and> (tec_type (TechnologyPerf td) = ''RES'' \<or> \<not> size_is_int (TechnologyPerf td))"
  let ?rule = "init_technology_block lib g m data nodename"
  from a have r: "reaches_cost_model m td"
    by (intro reaches_cost_modelI [of td smin smax]) simp_all
  from a r have s: "snd (?rule tec cfg1) = cfg1\<lparr>big_m_transformation_required := 1\<rparr>"
    by (simp add: snd_init_technology_block_cases)
  have keep: "big_m_transformation_required (snd (Block ?rule post c)) = 1"
    if "big_m_transformation_required c = 1" for c
    using that
    by (rule snd_Block_invariant [where P = "\<lambda>c. big_m_transformation_required c = 1",
          rotated]) (rule init_technology_block_keeps_flag)
  have "big_m_transformation_required (snd (Block ?rule (tec # post) cfg1)) = 1"
  proof (cases "?rule tec cfg1")
    case (Pair r c)
    with s have c: "c = cfg1\<lparr>big_m_transformation_required := 1\<rparr>" by simp
    show ?thesis
    proof (cases r)
      case (Inl e)
      with Pair c show ?thesis by simp
    next
      case (Inr b)
      have "big_m_transformation_required (snd (Block ?rule post c)) = 1"
        by (rule keep) (simp add: c)
      with Pair Inr show ?thesis by (auto split: prod.splits sum.splits)
    qed
  qed
  moreover from a have "snd (Block ?rule (pre @ tec # post) cfg)
      = snd (Block ?rule (tec # post) cfg1)"
    by (intro snd_Block_append) blast
  ultimately show "big_m_transformation_required
      (snd (add_technologies lib g nodename b_node m data cfg)) = 1"
    using a by (simp add: snd_add_technologies)
next
  assume lin: "\<forall>tec\<in>set (set_tecsAtNode b_node). \<forall>tecs td.
              technology_data data nodename = Some tecs \<and> tecs tec = Some td
              \<longrightarrow> CAPEX_model (Economics td) \<noteq> 2"
  have "snd (init_technology_block lib g m data nodename tec c) = c"
    if "tec \<in> set (set_tecsAtNode b_node)" for tec c
    using lin that unfolding snd_init_technology_block_cases
    by (auto split: option.splits)
  then have "snd (Block (init_technology_block lib g m data nodename)
      (set_tecsAtNode b_node) cfg) = cfg"
    by (rule snd_Block_unchanged)
  then show "snd (add_technologies lib g nodename b_node m data cfg) = cfg"
    by (simp add: snd_add_technologies)
qed

theorem big_m_flag_set_by_piecewise_witness:
  "big_m_transformation_required ex_cfg = 0
   \<and> big_m_transformation_required
       (snd (add_technologies ex_lib ex_globals_bp ''onshore''
              (ex_node [''boiler'', ''electrolyser'', ''pv'']) ex_model (ex_data []) ex_cfg)) = 1
   \<and> snd (add_technologies ex_lib ex_globals_bp ''onshore'' (ex_node [''boiler'', ''pv''])
            ex_model (ex_data []) ex_cfg) = ex_cfg"
proof -
  let ?rule = "init_technology_block ex_lib ex_globals_bp ex_model (ex_data []) ''onshore''"
  obtain b where b: "?rule ''boiler'' ex_cfg = (Inr b, ex_cfg)"
    by (simp add: ex_defs ex_globals_bp_def builder_defs)
  then have pre: "Block ?rule [''boiler''] ex_cfg = (Inr [(''boiler'', b)], ex_cfg)"
    by simp
  have split: "set_tecsAtNode (ex_node [''boiler'', ''electrolyser'', ''pv''])
      = [''boiler''] @ ''electrolyser'' # [''pv'']"
    by (simp add: ex_node_def)
  have td: "CAPEX_model (Economics td_electrolyser) = 2"
    "size_min_local (TechnologyPerf td_electrolyser) = Inr 0"
    "size_max_local (TechnologyPerf td_electrolyser) = Inr 6"
    "\<not> size_is_int (TechnologyPerf td_electrolyser)"
    by (simp_all add: td_electrolyser_def ex_economics_def size_min_local_def
        size_max_local_def)
  have one: "big_m_transformation_required
       (snd (add_technologies ex_lib ex_globals_bp ''onshore''
              (ex_node [''boiler'', ''electrolyser'', ''pv'']) ex_model (ex_data []) ex_cfg)) = 1"
    using big_m_flag_set_by_piecewise [where lib = ex_lib and g = ex_globals_bp
        and nodename = "''onshore''" and m = ex_model and data = "ex_data []" and cfg = ex_cfg
        and b_node = "ex_node [''boiler'', ''electrolyser'', ''pv'']",
        THEN conjunct1, rule_format,
        of "[''boiler'']" "''electrolyser''" "[''pv'']" "[(''boiler'', b)]" ex_cfg ex_tecs
           td_electrolyser 0 6]
      split pre ex_data_onshore [of "[]"] ex_tecs_lookup(5) td
    by simp
  have lin: "\<forall>tec\<in>set (set_tecsAtNode (ex_node [''boiler'', ''pv''])). \<forall>tecs td.
      technology_data (ex_data []) ''onshore'' = Some tecs \<and> tecs tec = Some td
      \<longrightarrow> CAPEX_model (Economics td) \<noteq> 2"
    by (auto simp: ex_node_def ex_data_onshore ex_tecs_lookup td_boiler_def td_pv_def
        ex_economics_def)
  have two: "snd (add_technologies ex_lib ex_globals_bp ''onshore'' (ex_node [''boiler'', ''pv''])
            ex_model (ex_data []) ex_cfg) = ex_cfg"
    using big_m_flag_set_by_piecewise [where lib = ex_lib and g = ex_globals_bp
        and nodename = "''onshore''" and m = ex_model and data = "ex_data []" and cfg = ex_cfg
        and b_node = "ex_node [''boiler'', ''pv'']", THEN conjunct2] lin
    by blast
  have "big_m_transformation_required ex_cfg = 0" by (simp add: ex_cfg_def)
  with one two show ?thesis by simp
qed

section \<open>Global sets of the energy hub\<close>

text \<open>
  C5: the claim is what \<^verbatim>\<open>tec_node\<close> attempts (it tests \<^verbatim>\<open>node in model.set_nodes\<close>
  and its message says that a node of the technology sets does not exist), but the
  function is only ever called for the nodes of the node set, so the test is always
  true. At the failing input the mapping \<^verbatim>\<open>sets['technologies']\<close> declares the node
  \<open>offshore\<close>, which is not in the global node set: the constructor raises nothing,
  its \<^verbatim>\<open>print\<close> is not called, and it returns the hub with the technology set of
  \<open>onshore\<close> alone. The sibling path does fail fast: when the node \<open>onshore\<close> of the
  node set has no entry in the mapping, the message naming it is printed and KeyError
  is raised.
\<close>

theorem undeclared_mapping_node_ignored:
  "(case energyhub_init
          (ex_data [(''onshore'', [''boiler'', ''pv'']), (''offshore'', [''pv''])]) [] of
     (Inl e, printed) \<Rightarrow> False
   | (Inr hub, printed) \<Rightarrow>
       technologies (topology (ex_data [(''onshore'', [''boiler'', ''pv'']),
                                        (''offshore'', [''pv''])])) ''offshore'' = Some [''pv'']
       \<and> ''offshore'' \<notin> set (set_nodes (hub_model hub))
       \<and> printed = []
       \<and> set_technologies (hub_model hub) = [(''onshore'', [''boiler'', ''pv''])])
   \<and> energyhub_init (ex_data []) []
       = (Inl (KeyError ''onshore''), [tec_node_message ''onshore''])"
  by (simp add: energyhub_init_def Let_def ex_data_def ex_topology_def Set_initialize_def
      tec_node_def RangeSet_def)

end
